theory Spec2Isabelle
  imports Complex_Main "HOL-Library.Sublist"
begin

section \<open>Python strings\<close>

text \<open>
  A Python \<^verbatim>\<open>str\<close> is a sequence of Unicode code points, so a string is a list of
  natural numbers here and \<open>length\<close> is Python's \<^verbatim>\<open>len\<close>. Literals of the sources are
  written \<open>cps ''...''\<close>; code points outside ASCII are written as numbers.

  The Unicode tables are cut to what the sources' patterns and the claims look at:
  whitespace is Python's full \<^verbatim>\<open>str.isspace\<close> list; case mapping and the word
  characters of \<^verbatim>\<open>\w\<close> are the ASCII ones; decimal digits are the ASCII ones, and the
  three Latin-1 superscripts stand for the digits that \<^verbatim>\<open>str.isdigit\<close> accepts and
  \<^verbatim>\<open>int\<close> rejects. Font sizes, coordinates and confidences are Python floats in the
  sources and exact rationals here.
\<close>

type_synonym ustr = "nat list"

definition cps :: "string \<Rightarrow> ustr" where
  "cps s = map of_char s"

datatype py_error = ValueError | AttributeError | IndexError

definition is_space :: "nat \<Rightarrow> bool" where
  "is_space c = ((9 \<le> c \<and> c \<le> 13) \<or> (28 \<le> c \<and> c \<le> 32) \<or> c = 133 \<or> c = 160
     \<or> c = 5760 \<or> (8192 \<le> c \<and> c \<le> 8202) \<or> c = 8232 \<or> c = 8233 \<or> c = 8239
     \<or> c = 8287 \<or> c = 12288)"

definition is_digit :: "nat \<Rightarrow> bool" where
  "is_digit c = (48 \<le> c \<and> c \<le> 57)"

definition is_word :: "nat \<Rightarrow> bool" where
  "is_word c = ((48 \<le> c \<and> c \<le> 57) \<or> (65 \<le> c \<and> c \<le> 90) \<or> c = 95
     \<or> (97 \<le> c \<and> c \<le> 122))"

definition is_upper_char :: "nat \<Rightarrow> bool" where
  "is_upper_char c = (65 \<le> c \<and> c \<le> 90)"

definition is_lower_char :: "nat \<Rightarrow> bool" where
  "is_lower_char c = (97 \<le> c \<and> c \<le> 122)"

definition to_lower :: "nat \<Rightarrow> nat" where
  "to_lower c = (if is_upper_char c then c + 32 else c)"

definition to_upper :: "nat \<Rightarrow> nat" where
  "to_upper c = (if is_lower_char c then c - 32 else c)"

definition lower :: "ustr \<Rightarrow> ustr" where
  "lower s = map to_lower s"

definition lstrip :: "ustr \<Rightarrow> ustr" where
  "lstrip s = dropWhile is_space s"

definition rstrip :: "ustr \<Rightarrow> ustr" where
  "rstrip s = rev (dropWhile is_space (rev s))"

definition strip :: "ustr \<Rightarrow> ustr" where
  "strip s = rstrip (lstrip s)"

text \<open>\<^verbatim>\<open>s.rstrip(chars)\<close>: the trailing characters that occur in \<open>chars\<close> are removed.\<close>

definition rstrip_chars :: "ustr \<Rightarrow> ustr \<Rightarrow> ustr" where
  "rstrip_chars chars s = rev (dropWhile (\<lambda>c. c \<in> set chars) (rev s))"

text \<open>\<^verbatim>\<open>s.split(d)\<close> for a one-character separator; the empty string gives one empty piece.\<close>

fun split_on :: "nat \<Rightarrow> ustr \<Rightarrow> ustr list" where
  "split_on d [] = [[]]"
| "split_on d (x # xs) =
     (if x = d then [] # split_on d xs
      else (case split_on d xs of [] \<Rightarrow> [[x]] | y # ys \<Rightarrow> (x # y) # ys))"

fun join :: "ustr \<Rightarrow> ustr list \<Rightarrow> ustr" where
  "join sep [] = []"
| "join sep [x] = x"
| "join sep (x # y # ys) = x @ sep @ join sep (y # ys)"

text \<open>\<^verbatim>\<open>s[a:b]\<close> for \<open>0 \<le> a \<le> b\<close>.\<close>

definition slice :: "ustr \<Rightarrow> nat \<Rightarrow> nat \<Rightarrow> ustr" where
  "slice s a b = take (b - a) (drop a s)"

definition isdigit_char :: "nat \<Rightarrow> bool" where
  "isdigit_char c = (is_digit c \<or> c = 178 \<or> c = 179 \<or> c = 185)"

definition isdigit :: "ustr \<Rightarrow> bool" where
  "isdigit s = (s \<noteq> [] \<and> list_all isdigit_char s)"

text \<open>
  \<^verbatim>\<open>int(s)\<close> on a string of digits: a \<^verbatim>\<open>ValueError\<close> unless every character is a
  decimal digit (the sources call it on digit strings only, so signs, underscores and
  surrounding blanks are not modelled).
\<close>

definition py_int :: "ustr \<Rightarrow> py_error + int" where
  "py_int s =
     (if s \<noteq> [] \<and> list_all is_digit s
      then Inr (foldl (\<lambda>a c. 10 * a + (int c - 48)) 0 s)
      else Inl ValueError)"

text \<open>\<^verbatim>\<open>s.isupper()\<close>: some cased character, and no lower-case one.\<close>

definition isupper :: "ustr \<Rightarrow> bool" where
  "isupper s = (list_ex is_upper_char s \<and> \<not> list_ex is_lower_char s)"

section \<open>The regular expressions of Python's re module\<close>

text \<open>
  The sources decide almost everything with \<^verbatim>\<open>re\<close>, so the patterns are embedded as
  data and matched by a backtracking matcher with the priorities of Python's engine:
  alternatives left to right, greedy repetition longest first, lazy repetition shortest
  first, the first successful path wins. \<open>Grp n\<close> is the \<open>n\<close>-th capturing group,
  \<open>Bol\<close> is \<^verbatim>\<open>^\<close>, \<open>Eol\<close> is \<^verbatim>\<open>$\<close> (both without MULTILINE), \<open>Wordb\<close> is \<^verbatim>\<open>\b\<close>,
  \<open>Ahead\<close> is \<^verbatim>\<open>(?=...)\<close>, \<open>Rep greedy lo hi\<close> is \<^verbatim>\<open>{lo,hi}\<close> with its lazy form.
\<close>

datatype regex =
    Eps
  | Cls "nat \<Rightarrow> bool"
  | Dot
  | Seq regex regex
  | Alt regex regex
  | Rep bool nat "nat option" regex
  | Grp nat regex
  | Bol
  | Eol
  | Wordb
  | Ahead regex

text \<open>
  A cursor is the position in the text, the character before it (for \<^verbatim>\<open>\b\<close>) and the
  text from the position on. Group spans are kept in a list, the latest first.
\<close>

type_synonym cursor = "nat \<times> nat option \<times> ustr"
type_synonym groups = "(nat \<times> nat \<times> nat) list"
type_synonym match_obj = "nat \<times> nat \<times> groups"

fun rsize :: "regex \<Rightarrow> nat" where
  "rsize (Seq a b) = Suc (rsize a + rsize b)"
| "rsize (Alt a b) = Suc (rsize a + rsize b)"
| "rsize (Rep gr lo hi r) = Suc (rsize r)"
| "rsize (Grp n r) = Suc (rsize r)"
| "rsize (Ahead r) = Suc (rsize r)"
| "rsize r = 0"

fun rlo :: "regex \<Rightarrow> nat" where
  "rlo (Rep gr lo hi r) = lo"
| "rlo r = 0"

text \<open>
  With IGNORECASE a character matches when it, its lower-case or its upper-case form is
  in the class.
\<close>

definition cmatch :: "bool \<Rightarrow> (nat \<Rightarrow> bool) \<Rightarrow> nat \<Rightarrow> bool" where
  "cmatch ic p c = (p c \<or> (ic \<and> (p (to_lower c) \<or> p (to_upper c))))"

fun dec_hi :: "nat option \<Rightarrow> nat option" where
  "dec_hi None = None"
| "dec_hi (Some h) = Some (h - 1)"

text \<open>
  \<open>rmatch ic ds r c g k\<close> matches \<open>r\<close> at cursor \<open>c\<close> with the flags IGNORECASE
  (\<open>ic\<close>) and DOTALL (\<open>ds\<close>) and hands every way of matching, in priority order, to the
  continuation \<open>k\<close> until one succeeds. An unbounded repetition is left when its body
  matches without consuming a character.
\<close>

function rmatch :: "bool \<Rightarrow> bool \<Rightarrow> regex \<Rightarrow> cursor \<Rightarrow> groups
    \<Rightarrow> (cursor \<Rightarrow> groups \<Rightarrow> (cursor \<times> groups) option) \<Rightarrow> (cursor \<times> groups) option" where
  "rmatch ic ds Eps c g k = k c g"
| "rmatch ic ds (Cls p) (i, pv, s) g k =
     (case s of [] \<Rightarrow> None
      | x # xs \<Rightarrow> if cmatch ic p x then k (Suc i, Some x, xs) g else None)"
| "rmatch ic ds Dot (i, pv, s) g k =
     (case s of [] \<Rightarrow> None
      | x # xs \<Rightarrow> if ds \<or> x \<noteq> 10 then k (Suc i, Some x, xs) g else None)"
| "rmatch ic ds (Seq a b) c g k = rmatch ic ds a c g (\<lambda>c' g'. rmatch ic ds b c' g' k)"
| "rmatch ic ds (Alt a b) c g k =
     (case rmatch ic ds a c g k of Some res \<Rightarrow> Some res | None \<Rightarrow> rmatch ic ds b c g k)"
| "rmatch ic ds (Grp n r) c g k =
     rmatch ic ds r c g (\<lambda>c' g'. k c' ((n, fst c, fst c') # g'))"
| "rmatch ic ds Bol c g k = (if fst c = 0 then k c g else None)"
| "rmatch ic ds Eol (i, pv, s) g k = (if s = [] \<or> s = [10] then k (i, pv, s) g else None)"
| "rmatch ic ds Wordb (i, pv, s) g k =
     (if (case pv of None \<Rightarrow> False | Some x \<Rightarrow> is_word x)
         \<noteq> (case s of [] \<Rightarrow> False | x # xs \<Rightarrow> is_word x)
      then k (i, pv, s) g else None)"
| "rmatch ic ds (Ahead r) c g k =
     (case rmatch ic ds r c g (\<lambda>c' g'. Some (c', g')) of
        None \<Rightarrow> None
      | Some (c', g') \<Rightarrow> k c g')"
| "rmatch ic ds (Rep gr lo hi r) c g k =
     (if 0 < lo then
        rmatch ic ds r c g (\<lambda>c' g'. rmatch ic ds (Rep gr (lo - 1) (dec_hi hi) r) c' g' k)
      else if hi = Some 0 then k c g
      else if gr then
        (case rmatch ic ds r c g (\<lambda>c' g'.
                if length (snd (snd c')) < length (snd (snd c))
                then rmatch ic ds (Rep gr 0 (dec_hi hi) r) c' g' k else None) of
           Some res \<Rightarrow> Some res
         | None \<Rightarrow> k c g)
      else
        (case k c g of
           Some res \<Rightarrow> Some res
         | None \<Rightarrow> rmatch ic ds r c g (\<lambda>c' g'.
                if length (snd (snd c')) < length (snd (snd c))
                then rmatch ic ds (Rep gr 0 (dec_hi hi) r) c' g' k else None)))"
  by pat_completeness auto
termination
  by (relation "inv_image (less_than <*lex*> less_than <*lex*> less_than)
        (\<lambda>(ic, ds, r, c, g, k). (rsize r, rlo r, length (snd (snd c))))") auto

text \<open>A match object: start, end and the group spans.\<close>

definition match_at :: "bool \<Rightarrow> bool \<Rightarrow> regex \<Rightarrow> cursor \<Rightarrow> match_obj option" where
  "match_at ic ds r c =
     (case rmatch ic ds r c [] (\<lambda>c' g'. Some (c', g')) of
        None \<Rightarrow> None
      | Some (c', g') \<Rightarrow> Some (fst c, fst c', g'))"

definition re_match :: "bool \<Rightarrow> bool \<Rightarrow> regex \<Rightarrow> ustr \<Rightarrow> match_obj option" where
  "re_match ic ds r s = match_at ic ds r (0, None, s)"

fun search_from :: "bool \<Rightarrow> bool \<Rightarrow> regex \<Rightarrow> cursor \<Rightarrow> match_obj option" where
  "search_from ic ds r (i, pv, []) = match_at ic ds r (i, pv, [])"
| "search_from ic ds r (i, pv, x # xs) =
     (case match_at ic ds r (i, pv, x # xs) of
        Some m \<Rightarrow> Some m
      | None \<Rightarrow> search_from ic ds r (Suc i, Some x, xs))"

definition re_search :: "bool \<Rightarrow> bool \<Rightarrow> regex \<Rightarrow> ustr \<Rightarrow> match_obj option" where
  "re_search ic ds r s = search_from ic ds r (0, None, s)"

text \<open>
  \<^verbatim>\<open>re.finditer\<close>: the non-overlapping matches from left to right. \<open>nxt\<close> is the
  position from which the next match may start: the end of the previous match, or one
  further when that match was empty.
\<close>

fun find_from :: "bool \<Rightarrow> bool \<Rightarrow> regex \<Rightarrow> nat \<Rightarrow> cursor \<Rightarrow> match_obj list" where
  "find_from ic ds r nxt (i, pv, []) =
     (if i < nxt then []
      else (case match_at ic ds r (i, pv, []) of None \<Rightarrow> [] | Some m \<Rightarrow> [m]))"
| "find_from ic ds r nxt (i, pv, x # xs) =
     (if i < nxt then find_from ic ds r nxt (Suc i, Some x, xs)
      else (case match_at ic ds r (i, pv, x # xs) of
              None \<Rightarrow> find_from ic ds r nxt (Suc i, Some x, xs)
            | Some (st, en, g) \<Rightarrow>
                (st, en, g) # find_from ic ds r (if en = st then Suc en else en) (Suc i, Some x, xs)))"

definition re_finditer :: "bool \<Rightarrow> bool \<Rightarrow> regex \<Rightarrow> ustr \<Rightarrow> match_obj list" where
  "re_finditer ic ds r s = find_from ic ds r 0 (0, None, s)"

definition group_span :: "groups \<Rightarrow> nat \<Rightarrow> (nat \<times> nat) option" where
  "group_span g n = map_of g n"

text \<open>\<^verbatim>\<open>m.group(n)\<close> for \<open>n > 0\<close>: \<open>None\<close> when the group took no part in the match.\<close>

definition group :: "ustr \<Rightarrow> match_obj \<Rightarrow> nat \<Rightarrow> ustr option" where
  "group s m n =
     (case group_span (snd (snd m)) n of
        None \<Rightarrow> None
      | Some (a, b) \<Rightarrow> Some (slice s a b))"

text \<open>\<^verbatim>\<open>m.group()\<close>, the whole match.\<close>

definition group0 :: "ustr \<Rightarrow> match_obj \<Rightarrow> ustr" where
  "group0 s m = slice s (fst m) (fst (snd m))"

text \<open>
  \<^verbatim>\<open>re.split\<close> of a pattern with \<open>ng\<close> groups: the pieces between the matches, each
  match contributing its groups (\<open>None\<close> for one that took no part); at most
  \<open>maxsplit\<close> splits when \<open>maxsplit\<close> is not 0.
\<close>

fun split_pieces :: "ustr \<Rightarrow> nat \<Rightarrow> nat \<Rightarrow> match_obj list \<Rightarrow> ustr option list" where
  "split_pieces s pos ng [] = [Some (drop pos s)]"
| "split_pieces s pos ng (m # ms) =
     Some (slice s pos (fst m)) # map (group s m) [1..<Suc ng]
       @ split_pieces s (fst (snd m)) ng ms"

definition re_split :: "bool \<Rightarrow> bool \<Rightarrow> regex \<Rightarrow> nat \<Rightarrow> nat \<Rightarrow> ustr \<Rightarrow> ustr option list" where
  "re_split ic ds r ng maxsplit s =
     split_pieces s 0 ng
       (if maxsplit = 0 then re_finditer ic ds r s else take maxsplit (re_finditer ic ds r s))"

text \<open>\<^verbatim>\<open>re.sub(pattern, "", s)\<close>: every match is cut out.\<close>

fun cut_matches :: "ustr \<Rightarrow> nat \<Rightarrow> match_obj list \<Rightarrow> ustr" where
  "cut_matches s pos [] = drop pos s"
| "cut_matches s pos (m # ms) = slice s pos (fst m) @ cut_matches s (fst (snd m)) ms"

definition re_sub_empty :: "bool \<Rightarrow> bool \<Rightarrow> regex \<Rightarrow> ustr \<Rightarrow> ustr" where
  "re_sub_empty ic ds r s = cut_matches s 0 (re_finditer ic ds r s)"

text \<open>
  \<^verbatim>\<open>re.findall\<close>: the whole matches for a pattern without groups, the first group
  (empty when it took no part) for a pattern with one group.
\<close>

definition re_findall0 :: "bool \<Rightarrow> bool \<Rightarrow> regex \<Rightarrow> ustr \<Rightarrow> ustr list" where
  "re_findall0 ic ds r s = map (group0 s) (re_finditer ic ds r s)"

definition re_findall1 :: "bool \<Rightarrow> bool \<Rightarrow> regex \<Rightarrow> ustr \<Rightarrow> ustr list" where
  "re_findall1 ic ds r s =
     map (\<lambda>m. case group s m 1 of None \<Rightarrow> [] | Some t \<Rightarrow> t) (re_finditer ic ds r s)"

subsection \<open>Writing patterns\<close>

fun seqs :: "regex list \<Rightarrow> regex" where
  "seqs [] = Eps"
| "seqs [r] = r"
| "seqs (r # q # rs) = Seq r (seqs (q # rs))"

fun alts :: "regex list \<Rightarrow> regex" where
  "alts [] = Eps"
| "alts [r] = r"
| "alts (r # q # rs) = Alt r (alts (q # rs))"

definition chr :: "nat \<Rightarrow> regex" where
  "chr c = Cls (\<lambda>x. x = c)"

text \<open>A literal text, and \<^verbatim>\<open>re.escape(s)\<close> spliced into a pattern.\<close>

definition litu :: "ustr \<Rightarrow> regex" where
  "litu s = seqs (map chr s)"

definition lit :: "string \<Rightarrow> regex" where
  "lit s = litu (cps s)"

definition rstar :: "regex \<Rightarrow> regex" where
  "rstar r = Rep True 0 None r"

definition rplus :: "regex \<Rightarrow> regex" where
  "rplus r = Rep True 1 None r"

definition ropt :: "regex \<Rightarrow> regex" where
  "ropt r = Rep True 0 (Some 1) r"

definition rplus_lazy :: "regex \<Rightarrow> regex" where
  "rplus_lazy r = Rep False 1 None r"

text \<open>\<^verbatim>\<open>\s*\<close>, \<^verbatim>\<open>\s+\<close> and the optional section number \<^verbatim>\<open>(?:[\d.]+\s*)?\<close>.\<close>

definition ws :: regex where
  "ws = rstar (Cls is_space)"

definition ws1 :: regex where
  "ws1 = rplus (Cls is_space)"

definition numbering :: regex where
  "numbering = ropt (seqs [rplus (Cls (\<lambda>c. is_digit c \<or> c = 46)), ws])"

section \<open>The parsed document\<close>

text \<open>
  The dataclasses of \<^verbatim>\<open>pymupdf_parser.py\<close>. \<open>block_text\<close> is the field
  \<^verbatim>\<open>TextBlock.text\<close>, \<open>page_index\<close> the field \<^verbatim>\<open>ParsedPage.page_num\<close>.
\<close>

record TextBlock =
  block_text :: ustr
  font_size :: rat
  font_name :: ustr
  is_bold :: bool
  page_num :: int
  bbox :: "rat \<times> rat \<times> rat \<times> rat"

record ParsedPage =
  page_index :: int
  width :: rat
  height :: rat
  blocks :: "TextBlock list"
  raw_text :: ustr

record ParsedDocument =
  pages :: "ParsedPage list"
  page_count :: int
  metadata :: "(ustr \<times> ustr) list"

section \<open>The layout analyzer\<close>

text \<open>A section dictionary of \<^verbatim>\<open>analyze_layout\<close>.\<close>

record Section =
  section_type :: string
  heading :: ustr
  content :: ustr
  page_start :: int
  page_end :: int

text \<open>
  The table \<^verbatim>\<open>SECTION_PATTERNS\<close>, in the order of the dictionary:

  \<^item> abstract: \<^verbatim>\<open>^abstract\s*$\<close>, \<^verbatim>\<open>^U+6458\s*U+8981\s*$\<close>, \<^verbatim>\<open>^summary\s*$\<close>
  \<^item> introduction: \<^verbatim>\<open>^(?:[\d.]+\s*)?introduction\s*$\<close>, \<^verbatim>\<open>^(?:[\d.]+\s*)?U+5F15\s*U+8A00\s*$\<close>, \<^verbatim>\<open>^(?:[\d.]+\s*)?U+7EEA\s*U+8BBA\s*$\<close>, \<^verbatim>\<open>^(?:[\d.]+\s*)?overview\s*$\<close>
  \<^item> related_work: \<^verbatim>\<open>^(?:[\d.]+\s*)?related\s+work[s]?\s*$\<close>, \<^verbatim>\<open>^(?:[\d.]+\s*)?background\s*$\<close>, \<^verbatim>\<open>^(?:[\d.]+\s*)?background\s+and\s+related\s+work\s*$\<close>, \<^verbatim>\<open>^(?:[\d.]+\s*)?literature\s+review\s*$\<close>, \<^verbatim>\<open>^(?:[\d.]+\s*)?previous\s+work\s*$\<close>, \<^verbatim>\<open>^(?:[\d.]+\s*)?prior\s+work\s*$\<close>, \<^verbatim>\<open>^(?:[\d.]+\s*)?U+76F8U+5173U+5DE5U+4F5C\s*$\<close>, \<^verbatim>\<open>^(?:[\d.]+\s*)?U+7814U+7A76U+80CCU+666F\s*$\<close>
  \<^item> methods: \<^verbatim>\<open>^(?:[\d.]+\s*)?method(?:s|ology)?\s*$\<close>, \<^verbatim>\<open>^(?:[\d.]+\s*)?approach\s*$\<close>, \<^verbatim>\<open>^(?:[\d.]+\s*)?(?:proposed\s+)?(?:method|framework|model|system|architecture)\s*$\<close>, \<^verbatim>\<open>^(?:[\d.]+\s*)?(?:our\s+)?(?:method|approach|framework|model)\s*$\<close>, \<^verbatim>\<open>^(?:[\d.]+\s*)?technical\s+approach\s*$\<close>, \<^verbatim>\<open>^(?:[\d.]+\s*)?problem\s+(?:formulation|definition|setup)\s*$\<close>, \<^verbatim>\<open>^(?:[\d.]+\s*)?U+65B9U+6CD5\s*$\<close>, \<^verbatim>\<open>^(?:[\d.]+\s*)?U+6A21U+578B\s*$\<close>
  \<^item> experiments: \<^verbatim>\<open>^(?:[\d.]+\s*)?experiments?\s*$\<close>, \<^verbatim>\<open>^(?:[\d.]+\s*)?experimental\s+(?:setup|results?|settings?|evaluation)\s*$\<close>, \<^verbatim>\<open>^(?:[\d.]+\s*)?evaluation\s*$\<close>, \<^verbatim>\<open>^(?:[\d.]+\s*)?empirical\s+(?:study|evaluation|results?)\s*$\<close>, \<^verbatim>\<open>^(?:[\d.]+\s*)?U+5B9EU+9A8C\s*$\<close>, \<^verbatim>\<open>^(?:[\d.]+\s*)?U+5B9EU+9A8CU+8BBEU+7F6E\s*$\<close>
  \<^item> results: \<^verbatim>\<open>^(?:[\d.]+\s*)?results?\s*$\<close>, \<^verbatim>\<open>^(?:[\d.]+\s*)?results?\s+and\s+(?:discussion|analysis)\s*$\<close>, \<^verbatim>\<open>^(?:[\d.]+\s*)?main\s+results?\s*$\<close>, \<^verbatim>\<open>^(?:[\d.]+\s*)?findings?\s*$\<close>, \<^verbatim>\<open>^(?:[\d.]+\s*)?U+7ED3U+679C\s*$\<close>, \<^verbatim>\<open>^(?:[\d.]+\s*)?U+5B9EU+9A8CU+7ED3U+679C\s*$\<close>
  \<^item> discussion: \<^verbatim>\<open>^(?:[\d.]+\s*)?discussion\s*$\<close>, \<^verbatim>\<open>^(?:[\d.]+\s*)?analysis\s*$\<close>, \<^verbatim>\<open>^(?:[\d.]+\s*)?discussion\s+and\s+(?:analysis|future\s+work)\s*$\<close>, \<^verbatim>\<open>^(?:[\d.]+\s*)?ablation\s+stud(?:y|ies)\s*$\<close>, \<^verbatim>\<open>^(?:[\d.]+\s*)?U+8BA8U+8BBA\s*$\<close>, \<^verbatim>\<open>^(?:[\d.]+\s*)?U+5206U+6790\s*$\<close>
  \<^item> conclusion: \<^verbatim>\<open>^(?:[\d.]+\s*)?conclusions?\s*$\<close>, \<^verbatim>\<open>^(?:[\d.]+\s*)?(?:conclusion|summary)\s+and\s+future\s+work\s*$\<close>, \<^verbatim>\<open>^(?:[\d.]+\s*)?concluding\s+remarks?\s*$\<close>, \<^verbatim>\<open>^(?:[\d.]+\s*)?future\s+work\s*$\<close>, \<^verbatim>\<open>^(?:[\d.]+\s*)?U+7ED3U+8BBA\s*$\<close>, \<^verbatim>\<open>^(?:[\d.]+\s*)?U+603BU+7ED3\s*$\<close>
  \<^item> acknowledgments: \<^verbatim>\<open>^acknowledgm?ents?\s*$\<close>, \<^verbatim>\<open>^U+81F4\s*U+8C22\s*$\<close>
  \<^item> appendix: \<^verbatim>\<open>^(?:[\d.]+\s*)?appendix\s*(?:[a-z])?\s*$\<close>, \<^verbatim>\<open>^(?:[\d.]+\s*)?supplementary\s+(?:material|information)\s*$\<close>, \<^verbatim>\<open>^U+9644\s*U+5F55\s*$\<close>
  \<^item> references: \<^verbatim>\<open>^references?\s*$\<close>, \<^verbatim>\<open>^bibliography\s*$\<close>, \<^verbatim>\<open>^U+53C2U+8003U+6587U+732E\s*$\<close>
\<close>

definition SECTION_PATTERNS :: "(string \<times> regex list) list" where
  "SECTION_PATTERNS =
    [(''abstract'',
      [seqs [Bol, lit ''abstract'', ws, Eol],
       seqs [Bol, chr 25688, ws, chr 35201, ws, Eol],
       seqs [Bol, lit ''summary'', ws, Eol]]),
     (''introduction'',
      [seqs [Bol, numbering, lit ''introduction'', ws, Eol],
       seqs [Bol, numbering, chr 24341, ws, chr 35328, ws, Eol],
       seqs [Bol, numbering, chr 32490, ws, chr 35770, ws, Eol],
       seqs [Bol, numbering, lit ''overview'', ws, Eol]]),
     (''related_work'',
      [seqs [Bol, numbering, lit ''related'', ws1, lit ''work'',
         ropt (Cls (\<lambda>c. c = 115)), ws, Eol],
       seqs [Bol, numbering, lit ''background'', ws, Eol],
       seqs [Bol, numbering, lit ''background'', ws1, lit ''and'', ws1, lit ''related'', ws1,
         lit ''work'', ws, Eol],
       seqs [Bol, numbering, lit ''literature'', ws1, lit ''review'', ws, Eol],
       seqs [Bol, numbering, lit ''previous'', ws1, lit ''work'', ws, Eol],
       seqs [Bol, numbering, lit ''prior'', ws1, lit ''work'', ws, Eol],
       seqs [Bol, numbering, chr 30456, chr 20851, chr 24037, chr 20316, ws, Eol],
       seqs [Bol, numbering, chr 30740, chr 31350, chr 32972, chr 26223, ws, Eol]]),
     (''methods'',
      [seqs [Bol, numbering, lit ''method'', ropt (alts [lit ''s'', lit ''ology'']), ws, Eol],
       seqs [Bol, numbering, lit ''approach'', ws, Eol],
       seqs [Bol, numbering, ropt (seqs [lit ''proposed'', ws1]), alts [lit ''method'',
         lit ''framework'', lit ''model'', lit ''system'', lit ''architecture''], ws, Eol],
       seqs [Bol, numbering, ropt (seqs [lit ''our'', ws1]), alts [lit ''method'',
         lit ''approach'', lit ''framework'', lit ''model''], ws, Eol],
       seqs [Bol, numbering, lit ''technical'', ws1, lit ''approach'', ws, Eol],
       seqs [Bol, numbering, lit ''problem'', ws1, alts [lit ''formulation'',
         lit ''definition'', lit ''setup''], ws, Eol],
       seqs [Bol, numbering, chr 26041, chr 27861, ws, Eol],
       seqs [Bol, numbering, chr 27169, chr 22411, ws, Eol]]),
     (''experiments'',
      [seqs [Bol, numbering, lit ''experiment'', ropt (lit ''s''), ws, Eol],
       seqs [Bol, numbering, lit ''experimental'', ws1, alts [lit ''setup'',
         seqs [lit ''result'', ropt (lit ''s'')], seqs [lit ''setting'', ropt (lit ''s'')],
         lit ''evaluation''], ws, Eol],
       seqs [Bol, numbering, lit ''evaluation'', ws, Eol],
       seqs [Bol, numbering, lit ''empirical'', ws1, alts [lit ''study'', lit ''evaluation'',
         seqs [lit ''result'', ropt (lit ''s'')]], ws, Eol],
       seqs [Bol, numbering, chr 23454, chr 39564, ws, Eol],
       seqs [Bol, numbering, chr 23454, chr 39564, chr 35774, chr 32622, ws, Eol]]),
     (''results'',
      [seqs [Bol, numbering, lit ''result'', ropt (lit ''s''), ws, Eol],
       seqs [Bol, numbering, lit ''result'', ropt (lit ''s''), ws1, lit ''and'', ws1,
         alts [lit ''discussion'', lit ''analysis''], ws, Eol],
       seqs [Bol, numbering, lit ''main'', ws1, lit ''result'', ropt (lit ''s''), ws, Eol],
       seqs [Bol, numbering, lit ''finding'', ropt (lit ''s''), ws, Eol],
       seqs [Bol, numbering, chr 32467, chr 26524, ws, Eol],
       seqs [Bol, numbering, chr 23454, chr 39564, chr 32467, chr 26524, ws, Eol]]),
     (''discussion'',
      [seqs [Bol, numbering, lit ''discussion'', ws, Eol],
       seqs [Bol, numbering, lit ''analysis'', ws, Eol],
       seqs [Bol, numbering, lit ''discussion'', ws1, lit ''and'', ws1, alts [lit ''analysis'',
         seqs [lit ''future'', ws1, lit ''work'']], ws, Eol],
       seqs [Bol, numbering, lit ''ablation'', ws1, lit ''stud'', alts [lit ''y'', lit ''ies''],
         ws, Eol],
       seqs [Bol, numbering, chr 35752, chr 35770, ws, Eol],
       seqs [Bol, numbering, chr 20998, chr 26512, ws, Eol]]),
     (''conclusion'',
      [seqs [Bol, numbering, lit ''conclusion'', ropt (lit ''s''), ws, Eol],
       seqs [Bol, numbering, alts [lit ''conclusion'', lit ''summary''], ws1, lit ''and'', ws1,
         lit ''future'', ws1, lit ''work'', ws, Eol],
       seqs [Bol, numbering, lit ''concluding'', ws1, lit ''remark'', ropt (lit ''s''), ws, Eol],
       seqs [Bol, numbering, lit ''future'', ws1, lit ''work'', ws, Eol],
       seqs [Bol, numbering, chr 32467, chr 35770, ws, Eol],
       seqs [Bol, numbering, chr 24635, chr 32467, ws, Eol]]),
     (''acknowledgments'',
      [seqs [Bol, lit ''acknowledg'', ropt (lit ''m''), lit ''ent'', ropt (lit ''s''), ws, Eol],
       seqs [Bol, chr 33268, ws, chr 35874, ws, Eol]]),
     (''appendix'',
      [seqs [Bol, numbering, lit ''appendix'', ws,
         ropt (Cls (\<lambda>c. (97 \<le> c \<and> c \<le> 122))), ws, Eol],
       seqs [Bol, numbering, lit ''supplementary'', ws1, alts [lit ''material'',
         lit ''information''], ws, Eol],
       seqs [Bol, chr 38468, ws, chr 24405, ws, Eol]]),
     (''references'',
      [seqs [Bol, lit ''reference'', ropt (lit ''s''), ws, Eol],
       seqs [Bol, lit ''bibliography'', ws, Eol],
       seqs [Bol, chr 21442, chr 32771, chr 25991, chr 29486, ws, Eol]])]"

subsection \<open>find_heading_font_size\<close>

text \<open>
  \<^verbatim>\<open>round(x, 1)\<close> rounds the exact value to one decimal, a tie to the even digit.
\<close>

definition round_half_even :: "rat \<Rightarrow> int" where
  "round_half_even x =
     (let f = \<lfloor>x\<rfloor>; d = x - of_int f
      in if d < 1 / 2 then f else if 1 / 2 < d then f + 1 else if even f then f else f + 1)"

definition round1 :: "rat \<Rightarrow> rat" where
  "round1 x = of_int (round_half_even (x * 10)) / 10"

text \<open>
  The \<^verbatim>\<open>Counter\<close> is a list of keys with their counts in insertion order;
  \<^verbatim>\<open>most_common(1)\<close> takes the first key among those with the largest count.
\<close>

fun counter_add :: "rat \<Rightarrow> nat \<Rightarrow> (rat \<times> nat) list \<Rightarrow> (rat \<times> nat) list" where
  "counter_add k n [] = [(k, n)]"
| "counter_add k n ((k', m) # kvs) =
     (if k = k' then (k', m + n) # kvs else (k', m) # counter_add k n kvs)"

definition font_sizes :: "ParsedDocument \<Rightarrow> (rat \<times> nat) list" where
  "font_sizes doc =
     foldl (\<lambda>counter block.
              if 3 < length (strip (block_text block))
              then counter_add (round1 (font_size block)) (length (block_text block)) counter
              else counter)
       [] (concat (map blocks (pages doc)))"

definition most_common :: "(rat \<times> nat) \<Rightarrow> (rat \<times> nat) list \<Rightarrow> rat \<times> nat" where
  "most_common kv kvs = foldl (\<lambda>best kv'. if snd best < snd kv' then kv' else best) kv kvs"

definition find_heading_font_size :: "ParsedDocument \<Rightarrow> rat \<times> rat" where
  "find_heading_font_size doc =
     (case font_sizes doc of
        [] \<Rightarrow> (12, 14)
      | kv # kvs \<Rightarrow>
          (let body_size = fst (most_common kv kvs);
               heading_candidates =
                 filter (\<lambda>size. body_size < size \<and> size \<le> body_size + 6) (map fst (kv # kvs));
               heading_size =
                 (case heading_candidates of
                    [] \<Rightarrow> body_size + 3 / 2
                  | c # cs \<Rightarrow> foldl min c cs)
           in (body_size, heading_size)))"

subsection \<open>classify_section\<close>

text \<open>\<^verbatim>\<open>^[\d.]+\s*\<close>\<close>

definition strip_numbering_re :: regex where
  "strip_numbering_re =
     seqs [Bol, rplus (Cls (\<lambda>c. is_digit c \<or> c = 46)), ws]"

text \<open>\<^verbatim>\<open>^[ivxlcdm]+[.\s]+\<close>\<close>

definition strip_roman_re :: regex where
  "strip_roman_re =
     seqs [Bol,
       rplus (Cls (\<lambda>c. c = 105 \<or> c = 118 \<or> c = 120 \<or> c = 108 \<or> c = 99 \<or> c = 100 \<or> c = 109)),
       rplus (Cls (\<lambda>c. c = 46 \<or> is_space c))]"

text \<open>\<^verbatim>\<open>^[a-z][.\s]+\<close>\<close>

definition strip_letter_re :: regex where
  "strip_letter_re =
     seqs [Bol, Cls (\<lambda>c. (97 \<le> c \<and> c \<le> 122)),
       rplus (Cls (\<lambda>c. c = 46 \<or> is_space c))]"

text \<open>
  The numbering is removed by three \<^verbatim>\<open>re.sub\<close> calls (the last two with IGNORECASE),
  then the first section type with a pattern that \<^verbatim>\<open>re.match\<close>es wins.
\<close>

definition classify_section :: "ustr \<Rightarrow> string" where
  "classify_section heading_text =
     (let clean0 = lower (strip heading_text);
          clean1 = re_sub_empty False False strip_numbering_re clean0;
          clean2 = re_sub_empty True False strip_roman_re clean1;
          clean3 = re_sub_empty True False strip_letter_re clean2;
          clean = strip clean3
      in case find (\<lambda>(ty, patterns).
                      list_ex (\<lambda>pattern. re_match True False pattern clean \<noteq> None) patterns)
                SECTION_PATTERNS of
           None \<Rightarrow> ''other''
         | Some (ty, patterns) \<Rightarrow> ty)"

subsection \<open>_is_numbered_heading\<close>

text \<open>\<^verbatim>\<open>^\d+(\.\d+)*\.?\s+\S\<close>\<close>

definition numbered_re :: regex where
  "numbered_re =
     seqs [Bol, rplus (Cls is_digit), rstar (Grp 1 (seqs [lit ''.'', rplus (Cls is_digit)])),
       ropt (lit ''.''), ws1, Cls (\<lambda>c. \<not> is_space c)]"

text \<open>\<^verbatim>\<open>^[IVXLCDM]+\.\s+\S\<close>\<close>

definition roman_numbered_re :: regex where
  "roman_numbered_re =
     seqs [Bol,
       rplus (Cls (\<lambda>c. c = 73 \<or> c = 86 \<or> c = 88 \<or> c = 76 \<or> c = 67 \<or> c = 68 \<or> c = 77)),
       lit ''.'', ws1, Cls (\<lambda>c. \<not> is_space c)]"

definition is_numbered_heading :: "ustr \<Rightarrow> bool" where
  "is_numbered_heading text0 =
     (let t = strip text0
      in if re_match False False numbered_re t \<noteq> None \<and> length t < 150 then True
         else if re_match False False roman_numbered_re t \<noteq> None \<and> length t < 150 then True
         else False)"

subsection \<open>_merge_adjacent_blocks\<close>

definition merge_step :: "TextBlock list \<Rightarrow> TextBlock \<Rightarrow> TextBlock list" where
  "merge_step merged b =
     (let prev = last merged
      in if \<bar>fst (snd (bbox b)) - fst (snd (bbox prev))\<bar> < 3
            \<and> \<bar>font_size b - font_size prev\<bar> < 1 / 2
            \<and> is_bold b = is_bold prev
            \<and> page_num b = page_num prev
         then butlast merged @
              [\<lparr>block_text = block_text prev @ [32] @ block_text b,
                font_size = font_size prev,
                font_name = font_name prev,
                is_bold = is_bold prev,
                page_num = page_num prev,
                bbox = (fst (bbox prev), fst (snd (bbox prev)),
                        fst (snd (snd (bbox b))), snd (snd (snd (bbox b))))\<rparr>]
         else merged @ [b])"

definition merge_adjacent_blocks :: "TextBlock list \<Rightarrow> TextBlock list" where
  "merge_adjacent_blocks bs =
     (case bs of [] \<Rightarrow> [] | b # rest \<Rightarrow> foldl merge_step [b] rest)"

subsection \<open>detect_language\<close>

text \<open>\<^verbatim>\<open>[\u4e00-\u9fff]\<close>\<close>

definition cjk_re :: regex where
  "cjk_re = Cls (\<lambda>c. 19968 \<le> c \<and> c \<le> 40959)"

text \<open>
  The quotient is a float division in the source and the exact quotient here; the two
  comparisons with \<^verbatim>\<open>0.3\<close> agree for every text of fewer than \<open>10\<^sup>1\<^sup>5\<close> characters.
\<close>

definition detect_language :: "ustr \<Rightarrow> string" where
  "detect_language text0 =
     (let chinese_chars = length (re_findall0 False False cjk_re text0);
          total_chars = length (strip text0)
      in if total_chars = 0 then ''en''
         else if (3 :: rat) / 10 < of_nat chinese_chars / of_nat total_chars then ''zh''
         else ''en'')"

subsection \<open>_extract_sections_from_text\<close>

text \<open>\<^verbatim>\<open>^\d+(\.\d+)*\.?\s+\<close>\<close>

definition number_prefix_re :: regex where
  "number_prefix_re =
     seqs [Bol, rplus (Cls is_digit), rstar (Grp 1 (seqs [lit ''.'', rplus (Cls is_digit)])),
       ropt (lit ''.''), ws1]"

text \<open>
  The state of the loop over the lines is the list of finished sections and the section
  being filled (\<^verbatim>\<open>current\<close>, \<open>None\<close> before the first heading).
\<close>

definition line_step :: "Section list \<times> Section option \<Rightarrow> ustr \<Rightarrow> Section list \<times> Section option" where
  "line_step st line =
     (let sections = fst st; current = snd st; stripped = strip line
      in if stripped = [] then
           (case current of
              None \<Rightarrow> (sections, current)
            | Some cur \<Rightarrow> (sections, Some (cur\<lparr>content := content cur @ [10]\<rparr>)))
         else
           (let ty0 = classify_section stripped;
                ty = (if ty0 = ''other'' \<and> re_match False False numbered_re stripped \<noteq> None
                      then classify_section (re_sub_empty False False number_prefix_re stripped)
                      else ty0);
                is_heading = (ty \<noteq> ''other'' \<and> length stripped < 100)
            in if is_heading then
                 ((case current of
                     None \<Rightarrow> sections
                   | Some cur \<Rightarrow> if strip (content cur) \<noteq> [] then sections @ [cur] else sections),
                  Some \<lparr>section_type = ty, heading = stripped, content = [],
                        page_start = 0, page_end = 0\<rparr>)
               else
                 (case current of
                    None \<Rightarrow> (sections, current)
                  | Some cur \<Rightarrow> (sections, Some (cur\<lparr>content := content cur @ stripped @ [32]\<rparr>)))))"

definition extract_sections_from_text :: "ustr \<Rightarrow> string \<Rightarrow> Section list" where
  "extract_sections_from_text full_text language =
     (let st = foldl line_step ([], None) (split_on 10 full_text)
      in case snd st of
           None \<Rightarrow> fst st
         | Some cur \<Rightarrow> if strip (content cur) \<noteq> [] then fst st @ [cur] else fst st)"

subsection \<open>analyze_layout\<close>

text \<open>\<^verbatim>\<open>(?:abstract|U+6458\s*U+8981)[:\sU+2014\-]*(.+?)(?=\n\s*(?:[\d.]+\s*)?(?:introduction|U+5F15U+8A00|keywords|U+5173U+952EU+8BCD|1\s))\<close>\<close>

definition abstract_re :: regex where
  "abstract_re =
     seqs [alts [lit ''abstract'', seqs [chr 25688, ws, chr 35201]],
       rstar (Cls (\<lambda>c. c = 58 \<or> is_space c \<or> c = 8212 \<or> c = 45)),
       Grp 1 (rplus_lazy Dot), Ahead (seqs [chr 10, ws, numbering, alts [lit ''introduction'',
       seqs [chr 24341, chr 35328], lit ''keywords'', seqs [chr 20851, chr 38190, chr 35789],
       seqs [lit ''1'', Cls is_space]]])]"

text \<open>
  The first pass: the title is made of the blocks of the first page whose font size is
  within one point of the largest one, when that exceeds the heading size.
\<close>

definition title_pass :: "ParsedDocument \<Rightarrow> rat \<Rightarrow> rat \<Rightarrow> Section list" where
  "title_pass doc body_size heading_size =
     (case pages doc of
        [] \<Rightarrow> []
      | first_page # rest \<Rightarrow>
          (let max_font =
                 (case blocks first_page of
                    [] \<Rightarrow> body_size
                  | b # bs \<Rightarrow> foldl max (font_size b) (map font_size bs))
           in if heading_size < max_font then
                (let title_blocks =
                       filter (\<lambda>b. \<bar>font_size b - max_font\<bar> < 1) (blocks first_page);
                     title_text = join [32] (map block_text (take 5 title_blocks))
                 in [\<lparr>section_type = ''title'', heading = strip title_text,
                       content = strip title_text, page_start = 0, page_end = 0\<rparr>])
              else []))"

text \<open>
  The four heading checks on a merged block with stripped text \<open>t\<close>: the result is
  \<^verbatim>\<open>(is_heading, section_type)\<close>. Check 1 is the font signal; checks 2 to 4 only count
  when the classification is not \<^verbatim>\<open>other\<close>.
\<close>

definition font_signal :: "rat \<Rightarrow> rat \<Rightarrow> TextBlock \<Rightarrow> ustr \<Rightarrow> bool" where
  "font_signal body_size heading_size block t =
     (heading_size \<le> font_size block \<and> length t < 200
      \<and> (is_bold block \<or> body_size + 1 / 2 < font_size block))"

definition heading_checks :: "rat \<Rightarrow> rat \<Rightarrow> TextBlock \<Rightarrow> ustr \<Rightarrow> bool \<times> string" where
  "heading_checks body_size heading_size block t =
     (let c1 = (if font_signal body_size heading_size block t
                then (True, classify_section t) else (False, ''other''));
          c2 = (if \<not> fst c1 \<and> is_numbered_heading t \<and> classify_section t \<noteq> ''other''
                then (True, classify_section t) else c1);
          c3 = (if \<not> fst c2 \<and> is_bold block \<and> length t < 100 \<and> classify_section t \<noteq> ''other''
                then (True, classify_section t) else c2);
          c4 = (if \<not> fst c3 \<and> isupper t \<and> length t < 100 \<and> classify_section t \<noteq> ''other''
                then (True, classify_section t) else c3)
      in c4)"

text \<open>
  The body of the second pass. The state is the list \<^verbatim>\<open>sections\<close> and
  \<^verbatim>\<open>current_section\<close>; a section is in \<^verbatim>\<open>current_section\<close> exactly while its
  \<^verbatim>\<open>_collecting\<close> flag is set, so \<open>None\<close> stands for "no section is being collected".
\<close>

definition save_section :: "Section option \<Rightarrow> Section list \<Rightarrow> Section list" where
  "save_section current sections =
     (case current of
        None \<Rightarrow> sections
      | Some cur \<Rightarrow> if strip (content cur) \<noteq> [] then sections @ [cur] else sections)"

definition process_block :: "rat \<Rightarrow> rat \<Rightarrow> Section list \<times> Section option \<Rightarrow> TextBlock
    \<Rightarrow> Section list \<times> Section option" where
  "process_block body_size heading_size st block =
     (let sections = fst st; current = snd st; t = strip (block_text block)
      in if t = [] then st
         else
           (let hc = heading_checks body_size heading_size block t;
                is_heading = fst hc; ty = snd hc
            in if is_heading \<and> ty \<noteq> ''other'' then
                 (save_section current sections,
                  Some \<lparr>section_type = ty, heading = t, content = [],
                        page_start = page_num block, page_end = page_num block\<rparr>)
               else if is_heading \<and> ty = ''other'' \<and> heading_size < font_size block then
                 (case current of
                    Some cur \<Rightarrow>
                      (sections,
                       Some (cur\<lparr>content := content cur @ [10] @ cps ''### '' @ t @ [10],
                                 page_end := page_num block\<rparr>))
                  | None \<Rightarrow>
                      (sections,
                       Some \<lparr>section_type = ''other'', heading = t, content = [],
                             page_start = page_num block, page_end = page_num block\<rparr>))
               else
                 (case current of
                    Some cur \<Rightarrow>
                      (sections,
                       Some (cur\<lparr>content := content cur @ t @ [32],
                                 page_end := page_num block\<rparr>))
                  | None \<Rightarrow> st)))"

text \<open>The text-based fallback, when fewer than two named sections were found.\<close>

definition text_fallback :: "ustr \<Rightarrow> string \<Rightarrow> Section list \<Rightarrow> Section list" where
  "text_fallback full_text language sections =
     (let named_sections =
            filter (\<lambda>s. section_type s \<noteq> ''title'' \<and> section_type s \<noteq> ''other'') sections
      in if length named_sections < 2 then
           (let text_sections = extract_sections_from_text full_text language
            in if length named_sections < length text_sections
               then filter (\<lambda>s. section_type s = ''title'') sections @ text_sections
               else sections)
         else sections)"

text \<open>The abstract recovered from the raw text (IGNORECASE and DOTALL).\<close>

definition abstract_fallback :: "ustr \<Rightarrow> Section list \<Rightarrow> py_error + Section list" where
  "abstract_fallback full_text sections =
     (if list_ex (\<lambda>s. section_type s = ''abstract'') sections then Inr sections
      else
        (case re_search True True abstract_re full_text of
           None \<Rightarrow> Inr sections
         | Some m \<Rightarrow>
             (case group full_text m 1 of
                None \<Rightarrow> Inl AttributeError
              | Some g1 \<Rightarrow>
                  (let abstract_text = strip g1
                   in if 50 < length abstract_text then
                        (let insert_pos =
                               (case sections of
                                  [] \<Rightarrow> 0
                                | s # ss \<Rightarrow> if section_type s = ''title'' then 1 else (0 :: nat))
                         in Inr (take insert_pos sections @
                                 [\<lparr>section_type = ''abstract'', heading = cps ''Abstract'',
                                   content = abstract_text, page_start = 0, page_end = 0\<rparr>]
                                 @ drop insert_pos sections))
                      else Inr sections))))"

definition analyze_layout :: "ParsedDocument \<Rightarrow> py_error + (Section list \<times> string)" where
  "analyze_layout doc =
     (if pages doc = [] then Inr ([], ''en'')
      else
        (let sizes = find_heading_font_size doc;
             body_size = fst sizes; heading_size = snd sizes;
             full_text = join [10] (map raw_text (pages doc));
             language = detect_language full_text;
             sections0 = title_pass doc body_size heading_size;
             all_blocks = concat (map (\<lambda>page. merge_adjacent_blocks (blocks page)) (pages doc));
             st = foldl (process_block body_size heading_size) (sections0, None) all_blocks;
             sections1 = save_section (snd st) (fst st);
             sections2 = text_fallback full_text language sections1
         in case abstract_fallback full_text sections2 of
              Inl e \<Rightarrow> Inl e
            | Inr sections3 \<Rightarrow>
                Inr (if length sections3 \<le> 1
                     then sections3 @
                          [\<lparr>section_type = ''other'', heading = cps ''Full Text'',
                            content = full_text, page_start = 0,
                            page_end = page_count doc - 1\<rparr>]
                     else sections3,
                     language)))"

section \<open>The reference parser\<close>

record Reference =
  ref_raw_text :: ustr
  title :: "ustr option"
  authors :: "ustr list"
  year :: "int option"
  venue :: "ustr option"
  doi :: "ustr option"
  ref_order :: int

text \<open>\<^verbatim>\<open>\n\s*(?:\[(\d+)\]|(\d+)\.\s)\<close>\<close>

definition ref_split_re :: regex where
  "ref_split_re =
     seqs [chr 10, ws, alts [seqs [lit ''['', Grp 1 (rplus (Cls is_digit)), lit '']''],
       seqs [Grp 2 (rplus (Cls is_digit)), lit ''.'', Cls is_space]]]"

text \<open>\<^verbatim>\<open>\b(19|20)\d{2}\b\<close>\<close>

definition year_re :: regex where
  "year_re =
     seqs [Wordb, Grp 1 (alts [lit ''19'', lit ''20'']), Rep True 2 (Some 2) (Cls is_digit),
       Wordb]"

text \<open>\<^verbatim>\<open>(10\.\d{4,}/[^\s]+)\<close>\<close>

definition doi_re :: regex where
  "doi_re =
     Grp 1 (seqs [lit ''10.'', Rep True 4 None (Cls is_digit), lit ''/'',
       rplus (Cls (\<lambda>c. \<not> (is_space c)))])"

text \<open>\<^verbatim>\<open>["""](.+?)["""]\<close>\<close>

definition quoted_title_re :: regex where
  "quoted_title_re =
     seqs [Cls (\<lambda>c. c = 34 \<or> c = 34 \<or> c = 34), Grp 1 (rplus_lazy Dot),
       Cls (\<lambda>c. c = 34 \<or> c = 34 \<or> c = 34)]"

text \<open>\<^verbatim>\<open>\.\s+\<close>\<close>

definition sentence_split_re :: regex where
  "sentence_split_re =
     seqs [lit ''.'', ws1]"

text \<open>\<^verbatim>\<open>\s+and\s+|,\s*|\s*&\s*\<close>\<close>

definition author_split_re :: regex where
  "author_split_re =
     alts [seqs [ws1, lit ''and'', ws1], seqs [lit '','', ws], seqs [ws, lit ''&'', ws]]"

text \<open>\<^verbatim>\<open>re.split\<close> for a pattern without groups: the pieces are plain strings.\<close>

fun split_plain :: "ustr \<Rightarrow> nat \<Rightarrow> match_obj list \<Rightarrow> ustr list" where
  "split_plain s pos [] = [drop pos s]"
| "split_plain s pos (m # ms) = slice s pos (fst m) # split_plain s (fst (snd m)) ms"

definition re_split0 :: "bool \<Rightarrow> bool \<Rightarrow> regex \<Rightarrow> nat \<Rightarrow> ustr \<Rightarrow> ustr list" where
  "re_split0 ic ds r maxsplit s =
     split_plain s 0
       (if maxsplit = 0 then re_finditer ic ds r s else take maxsplit (re_finditer ic ds r s))"

subsection \<open>_parse_single_reference\<close>

text \<open>
  Each field is computed as in the source, in its order: year, DOI, title, authors. A
  call of \<^verbatim>\<open>.group(1)\<close> on a group that took no part gives \<open>None\<close>, and the method
  call on it would raise \<^verbatim>\<open>AttributeError\<close>.
\<close>

definition ref_year :: "ustr \<Rightarrow> py_error + int option" where
  "ref_year text0 =
     (case re_search False False year_re text0 of
        None \<Rightarrow> Inr None
      | Some m \<Rightarrow>
          (case py_int (group0 text0 m) of
             Inl e \<Rightarrow> Inl e
           | Inr y \<Rightarrow> Inr (Some y)))"

definition ref_doi :: "ustr \<Rightarrow> py_error + ustr option" where
  "ref_doi text0 =
     (case re_search False False doi_re text0 of
        None \<Rightarrow> Inr None
      | Some m \<Rightarrow>
          (case group text0 m 1 of
             None \<Rightarrow> Inl AttributeError
           | Some d \<Rightarrow> Inr (Some (rstrip_chars (cps ''.'') d))))"

definition ref_title :: "ustr \<Rightarrow> ustr option" where
  "ref_title text0 =
     (case re_search False False quoted_title_re text0 of
        Some m \<Rightarrow> group text0 m 1
      | None \<Rightarrow>
          (case re_split0 False False sentence_split_re 3 text0 of
             p0 # p1 # ps \<Rightarrow> if 10 < length p1 then Some (strip p1) else None
           | ps \<Rightarrow> None))"

definition ref_authors :: "ustr \<Rightarrow> ustr list" where
  "ref_authors text0 =
     (let author_text =
            (case re_search False False year_re text0 of
               Some m \<Rightarrow> rstrip_chars (cps '',.('') (strip (take (fst m) text0))
             | None \<Rightarrow> take 50 text0)
      in if author_text \<noteq> [] then
           take 10 (map strip
             (filter (\<lambda>a. strip a \<noteq> [] \<and> 1 < length (strip a))
                (re_split0 False False author_split_re 0 author_text)))
         else [])"

definition parse_single_reference :: "ustr \<Rightarrow> int \<Rightarrow> py_error + Reference" where
  "parse_single_reference text0 order0 =
     (case ref_year text0 of
        Inl e \<Rightarrow> Inl e
      | Inr y \<Rightarrow>
          (case ref_doi text0 of
             Inl e \<Rightarrow> Inl e
           | Inr d \<Rightarrow>
               Inr \<lparr>ref_raw_text = text0, title = ref_title text0, authors = ref_authors text0,
                     year = y, venue = None, doi = d, ref_order = order0\<rparr>))"

subsection \<open>parse_references\<close>

text \<open>
  The loop over the pieces of \<^verbatim>\<open>re.split\<close>; the state is \<^verbatim>\<open>references\<close>,
  \<^verbatim>\<open>current_ref\<close> and \<^verbatim>\<open>ref_num\<close>. A piece is \<open>None\<close> for a group that took no part.
\<close>

type_synonym ref_state = "Reference list \<times> ustr \<times> int"

definition flush_ref :: "ref_state \<Rightarrow> py_error + Reference list" where
  "flush_ref st =
     (case st of (references, current_ref, ref_num) \<Rightarrow>
        if strip current_ref \<noteq> [] then
          (case parse_single_reference (strip current_ref) ref_num of
             Inl e \<Rightarrow> Inl e
           | Inr r \<Rightarrow> Inr (references @ [r]))
        else Inr references)"

definition block_step :: "ref_state \<Rightarrow> ustr option \<Rightarrow> py_error + ref_state" where
  "block_step st block =
     (case st of (references, current_ref, ref_num) \<Rightarrow>
        (case block of
           None \<Rightarrow> Inr st
         | Some b \<Rightarrow>
             if isdigit (strip b) then
               (case flush_ref st of
                  Inl e \<Rightarrow> Inl e
                | Inr references' \<Rightarrow>
                    (case py_int (strip b) of
                       Inl e \<Rightarrow> Inl e
                     | Inr n \<Rightarrow> Inr (references', [], n)))
             else Inr (references, current_ref @ b, ref_num)))"

fun fold_err :: "('s \<Rightarrow> 'a \<Rightarrow> py_error + 's) \<Rightarrow> 's \<Rightarrow> 'a list \<Rightarrow> py_error + 's" where
  "fold_err f s [] = Inr s"
| "fold_err f s (x # xs) = (case f s x of Inl e \<Rightarrow> Inl e | Inr s' \<Rightarrow> fold_err f s' xs)"

definition line_refs :: "ustr \<Rightarrow> py_error + Reference list" where
  "line_refs text0 =
     fold_err (\<lambda>references il.
                 (let line = strip (snd il)
                  in if 20 < length line then
                       (case parse_single_reference line (int (fst il) + 1) of
                          Inl e \<Rightarrow> Inl e
                        | Inr r \<Rightarrow> Inr (references @ [r]))
                     else Inr references))
       [] (enumerate 0 (split_on 10 (strip text0)))"

definition parse_references :: "ustr \<Rightarrow> py_error + Reference list" where
  "parse_references text0 =
     (let ref_blocks = re_split False False ref_split_re 2 0 text0
      in case fold_err block_step ([], [], 0) ref_blocks of
           Inl e \<Rightarrow> Inl e
         | Inr st \<Rightarrow>
             (case flush_ref st of
                Inl e \<Rightarrow> Inl e
              | Inr references \<Rightarrow>
                  if references = [] then line_refs text0 else Inr references))"

section \<open>The entity recognizer\<close>

text \<open>
  An entity dictionary. \<open>entity_text\<close> is its key \<^verbatim>\<open>text\<close>. The relationship
  extractor reads the keys \<^verbatim>\<open>text\<close> and \<^verbatim>\<open>entity_type\<close> of the same dictionaries.
\<close>

record Entity =
  entity_text :: ustr
  entity_type :: string
  confidence :: rat

text \<open>
  \<^verbatim>\<open>\b(ImageNet|CIFAR[-\s]?\d+|MNIST|COCO|VOC\s?\d+|SQuAD|GLUE|SuperGLUE|WikiText|Penn\s?Treebank)\b\<close>

  \<^verbatim>\<open>\b(WMT[-\s]?\d+|SNLI|MultiNLI|SST[-\s]?\d+|MRPC|QQP|QNLI|RTE|WNLI)\b\<close>

  \<^verbatim>\<open>\b(MS[-\s]?COCO|Visual\s?Genome|Flickr\d+k?|LVIS|ADE\d+K?|Cityscapes)\b\<close>

  \<^verbatim>\<open>\b(LibriSpeech|Common\s?Voice|AudioSet|VoxCeleb\d?)\b\<close>

  \<^verbatim>\<open>\b(WebText|BookCorpus|C4|The\s?Pile|RedPajama|LAION[-\s]?\d+[BMK]?)\b\<close>
\<close>

definition DATASET_PATTERNS :: "regex list" where
  "DATASET_PATTERNS =
    [seqs [Wordb, Grp 1 (alts [lit ''ImageNet'', seqs [lit ''CIFAR'',
       ropt (Cls (\<lambda>c. c = 45 \<or> is_space c)), rplus (Cls is_digit)], lit ''MNIST'',
       lit ''COCO'', seqs [lit ''VOC'', ropt (Cls is_space), rplus (Cls is_digit)],
       lit ''SQuAD'', lit ''GLUE'', lit ''SuperGLUE'', lit ''WikiText'', seqs [lit ''Penn'',
       ropt (Cls is_space), lit ''Treebank'']]), Wordb],
     seqs [Wordb, Grp 1 (alts [seqs [lit ''WMT'',
       ropt (Cls (\<lambda>c. c = 45 \<or> is_space c)), rplus (Cls is_digit)], lit ''SNLI'',
       lit ''MultiNLI'', seqs [lit ''SST'', ropt (Cls (\<lambda>c. c = 45 \<or> is_space c)),
       rplus (Cls is_digit)], lit ''MRPC'', lit ''QQP'', lit ''QNLI'', lit ''RTE'',
       lit ''WNLI'']), Wordb],
     seqs [Wordb, Grp 1 (alts [seqs [lit ''MS'',
       ropt (Cls (\<lambda>c. c = 45 \<or> is_space c)), lit ''COCO''], seqs [lit ''Visual'',
       ropt (Cls is_space), lit ''Genome''], seqs [lit ''Flickr'', rplus (Cls is_digit),
       ropt (lit ''k'')], lit ''LVIS'', seqs [lit ''ADE'', rplus (Cls is_digit),
       ropt (lit ''K'')], lit ''Cityscapes'']), Wordb],
     seqs [Wordb, Grp 1 (alts [lit ''LibriSpeech'', seqs [lit ''Common'', ropt (Cls is_space),
       lit ''Voice''], lit ''AudioSet'', seqs [lit ''VoxCeleb'', ropt (Cls is_digit)]]), Wordb],
     seqs [Wordb, Grp 1 (alts [lit ''WebText'', lit ''BookCorpus'', lit ''C4'',
       seqs [lit ''The'', ropt (Cls is_space), lit ''Pile''], lit ''RedPajama'',
       seqs [lit ''LAION'', ropt (Cls (\<lambda>c. c = 45 \<or> is_space c)),
       rplus (Cls is_digit), ropt (Cls (\<lambda>c. c = 66 \<or> c = 77 \<or> c = 75))]]),
       Wordb]]"

text \<open>\<^verbatim>\<open>\b([A-Z][\w-]*(?:\s+[A-Z][\w-]*)*)\s+(?:dataset|benchmark|corpus|corpora)\b\<close>\<close>

definition DATASET_GENERIC :: regex where
  "DATASET_GENERIC =
     seqs [Wordb, Grp 1 (seqs [Cls (\<lambda>c. (65 \<le> c \<and> c \<le> 90)),
       rstar (Cls (\<lambda>c. is_word c \<or> c = 45)), rstar (seqs [ws1,
       Cls (\<lambda>c. (65 \<le> c \<and> c \<le> 90)),
       rstar (Cls (\<lambda>c. is_word c \<or> c = 45))])]), ws1, alts [lit ''dataset'',
       lit ''benchmark'', lit ''corpus'', lit ''corpora''], Wordb]"

text \<open>
  \<^verbatim>\<open>\b(accuracy|precision|recall|F1[-\s]?score|F[-\s]?measure|AUC[-\s]?ROC|mAP|IoU)\b\<close>

  \<^verbatim>\<open>\b(BLEU[-\s]?\d*|ROUGE[-\s]?[LN12]*|METEOR|CIDEr|perplexity|PPL)\b\<close>

  \<^verbatim>\<open>\b(top[-\s]?\d+\s+accuracy|mean\s+average\s+precision|average\s+precision)\b\<close>

  \<^verbatim>\<open>\b(FID|IS|inception\s+score|Frechet\s+inception\s+distance)\b\<close>

  \<^verbatim>\<open>\b(MSE|RMSE|MAE|PSNR|SSIM)\b\<close>

  \<^verbatim>\<open>\b(WER|CER|word\s+error\s+rate|character\s+error\s+rate)\b\<close>

  \<^verbatim>\<open>\b(EM|exact\s+match)\b\<close>
\<close>

definition METRIC_PATTERNS :: "regex list" where
  "METRIC_PATTERNS =
    [seqs [Wordb, Grp 1 (alts [lit ''accuracy'', lit ''precision'', lit ''recall'',
       seqs [lit ''F1'', ropt (Cls (\<lambda>c. c = 45 \<or> is_space c)), lit ''score''],
       seqs [lit ''F'', ropt (Cls (\<lambda>c. c = 45 \<or> is_space c)), lit ''measure''],
       seqs [lit ''AUC'', ropt (Cls (\<lambda>c. c = 45 \<or> is_space c)), lit ''ROC''],
       lit ''mAP'', lit ''IoU'']), Wordb],
     seqs [Wordb, Grp 1 (alts [seqs [lit ''BLEU'',
       ropt (Cls (\<lambda>c. c = 45 \<or> is_space c)), rstar (Cls is_digit)],
       seqs [lit ''ROUGE'', ropt (Cls (\<lambda>c. c = 45 \<or> is_space c)),
       rstar (Cls (\<lambda>c. c = 76 \<or> c = 78 \<or> c = 49 \<or> c = 50))], lit ''METEOR'',
       lit ''CIDEr'', lit ''perplexity'', lit ''PPL'']), Wordb],
     seqs [Wordb, Grp 1 (alts [seqs [lit ''top'',
       ropt (Cls (\<lambda>c. c = 45 \<or> is_space c)), rplus (Cls is_digit), ws1,
       lit ''accuracy''], seqs [lit ''mean'', ws1, lit ''average'', ws1, lit ''precision''],
       seqs [lit ''average'', ws1, lit ''precision'']]), Wordb],
     seqs [Wordb, Grp 1 (alts [lit ''FID'', lit ''IS'', seqs [lit ''inception'', ws1,
       lit ''score''], seqs [lit ''Frechet'', ws1, lit ''inception'', ws1, lit ''distance'']]),
       Wordb],
     seqs [Wordb, Grp 1 (alts [lit ''MSE'', lit ''RMSE'', lit ''MAE'', lit ''PSNR'',
       lit ''SSIM'']), Wordb],
     seqs [Wordb, Grp 1 (alts [lit ''WER'', lit ''CER'', seqs [lit ''word'', ws1, lit ''error'',
       ws1, lit ''rate''], seqs [lit ''character'', ws1, lit ''error'', ws1, lit ''rate'']]),
       Wordb],
     seqs [Wordb, Grp 1 (alts [lit ''EM'', seqs [lit ''exact'', ws1, lit ''match'']]), Wordb]]"

text \<open>
  \<^verbatim>\<open>\b(Transformer|BERT|GPT[-\s]?\d*|ResNet[-\s]?\d*|VGG[-\s]?\d*|LSTM|GRU|CNN|RNN)\b\<close>

  \<^verbatim>\<open>\b(ViT|Vision\s+Transformer|DETR|YOLO(?:v\d)?|Faster\s+R[-\s]?CNN|Mask\s+R[-\s]?CNN)\b\<close>

  \<^verbatim>\<open>\b(U[-\s]?Net|GAN|VAE|Diffusion\s+Model|Stable\s+Diffusion|DALL[-\s]?E)\b\<close>

  \<^verbatim>\<open>\b(T5|BART|XLNet|RoBERTa|ALBERT|DeBERTa|ELECTRA|LLaMA|Mistral|Qwen)\b\<close>

  \<^verbatim>\<open>\b(attention\s+mechanism|self[-\s]?attention|cross[-\s]?attention|multi[-\s]?head\s+attention)\b\<close>

  \<^verbatim>\<open>\b(dropout|batch\s+normalization|layer\s+normalization|residual\s+connection)\b\<close>

  \<^verbatim>\<open>\b(fine[-\s]?tuning|pre[-\s]?training|transfer\s+learning|few[-\s]?shot|zero[-\s]?shot)\b\<close>

  \<^verbatim>\<open>\b(reinforcement\s+learning|supervised\s+learning|unsupervised\s+learning|self[-\s]?supervised)\b\<close>

  \<^verbatim>\<open>\b(contrastive\s+learning|knowledge\s+distillation|data\s+augmentation)\b\<close>

  \<^verbatim>\<open>\b(gradient\s+descent|Adam|SGD|AdamW)\b\<close>
\<close>

definition METHOD_PATTERNS :: "regex list" where
  "METHOD_PATTERNS =
    [seqs [Wordb, Grp 1 (alts [lit ''Transformer'', lit ''BERT'', seqs [lit ''GPT'',
       ropt (Cls (\<lambda>c. c = 45 \<or> is_space c)), rstar (Cls is_digit)],
       seqs [lit ''ResNet'', ropt (Cls (\<lambda>c. c = 45 \<or> is_space c)),
       rstar (Cls is_digit)], seqs [lit ''VGG'',
       ropt (Cls (\<lambda>c. c = 45 \<or> is_space c)), rstar (Cls is_digit)], lit ''LSTM'',
       lit ''GRU'', lit ''CNN'', lit ''RNN'']), Wordb],
     seqs [Wordb, Grp 1 (alts [lit ''ViT'', seqs [lit ''Vision'', ws1, lit ''Transformer''],
       lit ''DETR'', seqs [lit ''YOLO'', ropt (seqs [lit ''v'', Cls is_digit])],
       seqs [lit ''Faster'', ws1, lit ''R'', ropt (Cls (\<lambda>c. c = 45 \<or> is_space c)),
       lit ''CNN''], seqs [lit ''Mask'', ws1, lit ''R'',
       ropt (Cls (\<lambda>c. c = 45 \<or> is_space c)), lit ''CNN'']]), Wordb],
     seqs [Wordb, Grp 1 (alts [seqs [lit ''U'',
       ropt (Cls (\<lambda>c. c = 45 \<or> is_space c)), lit ''Net''], lit ''GAN'', lit ''VAE'',
       seqs [lit ''Diffusion'', ws1, lit ''Model''], seqs [lit ''Stable'', ws1,
       lit ''Diffusion''], seqs [lit ''DALL'', ropt (Cls (\<lambda>c. c = 45 \<or> is_space c)),
       lit ''E'']]), Wordb],
     seqs [Wordb, Grp 1 (alts [lit ''T5'', lit ''BART'', lit ''XLNet'', lit ''RoBERTa'',
       lit ''ALBERT'', lit ''DeBERTa'', lit ''ELECTRA'', lit ''LLaMA'', lit ''Mistral'',
       lit ''Qwen'']), Wordb],
     seqs [Wordb, Grp 1 (alts [seqs [lit ''attention'', ws1, lit ''mechanism''],
       seqs [lit ''self'', ropt (Cls (\<lambda>c. c = 45 \<or> is_space c)), lit ''attention''],
       seqs [lit ''cross'', ropt (Cls (\<lambda>c. c = 45 \<or> is_space c)),
       lit ''attention''], seqs [lit ''multi'',
       ropt (Cls (\<lambda>c. c = 45 \<or> is_space c)), lit ''head'', ws1,
       lit ''attention'']]), Wordb],
     seqs [Wordb, Grp 1 (alts [lit ''dropout'', seqs [lit ''batch'', ws1,
       lit ''normalization''], seqs [lit ''layer'', ws1, lit ''normalization''],
       seqs [lit ''residual'', ws1, lit ''connection'']]), Wordb],
     seqs [Wordb, Grp 1 (alts [seqs [lit ''fine'',
       ropt (Cls (\<lambda>c. c = 45 \<or> is_space c)), lit ''tuning''], seqs [lit ''pre'',
       ropt (Cls (\<lambda>c. c = 45 \<or> is_space c)), lit ''training''],
       seqs [lit ''transfer'', ws1, lit ''learning''], seqs [lit ''few'',
       ropt (Cls (\<lambda>c. c = 45 \<or> is_space c)), lit ''shot''], seqs [lit ''zero'',
       ropt (Cls (\<lambda>c. c = 45 \<or> is_space c)), lit ''shot'']]), Wordb],
     seqs [Wordb, Grp 1 (alts [seqs [lit ''reinforcement'', ws1, lit ''learning''],
       seqs [lit ''supervised'', ws1, lit ''learning''], seqs [lit ''unsupervised'', ws1,
       lit ''learning''], seqs [lit ''self'', ropt (Cls (\<lambda>c. c = 45 \<or> is_space c)),
       lit ''supervised'']]), Wordb],
     seqs [Wordb, Grp 1 (alts [seqs [lit ''contrastive'', ws1, lit ''learning''],
       seqs [lit ''knowledge'', ws1, lit ''distillation''], seqs [lit ''data'', ws1,
       lit ''augmentation'']]), Wordb],
     seqs [Wordb, Grp 1 (alts [seqs [lit ''gradient'', ws1, lit ''descent''], lit ''Adam'',
       lit ''SGD'', lit ''AdamW'']), Wordb]]"

text \<open>
  \<^verbatim>\<open>\b(PyTorch|TensorFlow|JAX|Keras|Hugging\s?Face|scikit[-\s]?learn|spaCy|NLTK)\b\<close>

  \<^verbatim>\<open>\b(NumPy|SciPy|Pandas|OpenCV|CUDA|cuDNN)\b\<close>

  \<^verbatim>\<open>\b(NVIDIA\s+[A-Z]\d+|TPU|A100|V100|H100)\b\<close>
\<close>

definition TOOL_PATTERNS :: "regex list" where
  "TOOL_PATTERNS =
    [seqs [Wordb, Grp 1 (alts [lit ''PyTorch'', lit ''TensorFlow'', lit ''JAX'', lit ''Keras'',
       seqs [lit ''Hugging'', ropt (Cls is_space), lit ''Face''], seqs [lit ''scikit'',
       ropt (Cls (\<lambda>c. c = 45 \<or> is_space c)), lit ''learn''], lit ''spaCy'',
       lit ''NLTK'']), Wordb],
     seqs [Wordb, Grp 1 (alts [lit ''NumPy'', lit ''SciPy'', lit ''Pandas'', lit ''OpenCV'',
       lit ''CUDA'', lit ''cuDNN'']), Wordb],
     seqs [Wordb, Grp 1 (alts [seqs [lit ''NVIDIA'', ws1,
       Cls (\<lambda>c. (65 \<le> c \<and> c \<le> 90)), rplus (Cls is_digit)], lit ''TPU'',
       lit ''A100'', lit ''V100'', lit ''H100'']), Wordb]]"

text \<open>
  \<^verbatim>\<open>\b(Bayes(?:ian)?\s+(?:theorem|inference|optimization|network))\b\<close>

  \<^verbatim>\<open>\b(Markov\s+(?:chain|decision\s+process|random\s+field))\b\<close>

  \<^verbatim>\<open>\b(KL[-\s]?divergence|mutual\s+information|information\s+entropy)\b\<close>

  \<^verbatim>\<open>\b(optimal\s+transport|Wasserstein\s+distance|variational\s+inference)\b\<close>
\<close>

definition THEORY_PATTERNS :: "regex list" where
  "THEORY_PATTERNS =
    [seqs [Wordb, Grp 1 (seqs [lit ''Bayes'', ropt (lit ''ian''), ws1, alts [lit ''theorem'',
       lit ''inference'', lit ''optimization'', lit ''network'']]), Wordb],
     seqs [Wordb, Grp 1 (seqs [lit ''Markov'', ws1, alts [lit ''chain'', seqs [lit ''decision'',
       ws1, lit ''process''], seqs [lit ''random'', ws1, lit ''field'']]]), Wordb],
     seqs [Wordb, Grp 1 (alts [seqs [lit ''KL'',
       ropt (Cls (\<lambda>c. c = 45 \<or> is_space c)), lit ''divergence''],
       seqs [lit ''mutual'', ws1, lit ''information''], seqs [lit ''information'', ws1,
       lit ''entropy'']]), Wordb],
     seqs [Wordb, Grp 1 (alts [seqs [lit ''optimal'', ws1, lit ''transport''],
       seqs [lit ''Wasserstein'', ws1, lit ''distance''], seqs [lit ''variational'', ws1,
       lit ''inference'']]), Wordb]]"

text \<open>
  \<^verbatim>\<open>(?:we\s+(?:address|tackle|study|investigate|focus\s+on|propose\s+a\s+solution\s+(?:to|for)))\s+(?:the\s+)?(?:problem\s+of\s+)?(.{10,80}?)(?:\.|,|\band\b)\<close>

  \<^verbatim>\<open>(?:the\s+(?:problem|task|challenge)\s+of)\s+(.{10,80}?)(?:\.|,)\<close>

  \<^verbatim>\<open>(?:this\s+(?:paper|work|study)\s+(?:addresses|tackles|focuses\s+on|investigates))\s+(.{10,80}?)(?:\.|,)\<close>
\<close>

definition problem_patterns :: "regex list" where
  "problem_patterns =
    [seqs [seqs [lit ''we'', ws1, alts [lit ''address'', lit ''tackle'', lit ''study'',
       lit ''investigate'', seqs [lit ''focus'', ws1, lit ''on''], seqs [lit ''propose'', ws1,
       lit ''a'', ws1, lit ''solution'', ws1, alts [lit ''to'', lit ''for'']]]], ws1,
       ropt (seqs [lit ''the'', ws1]), ropt (seqs [lit ''problem'', ws1, lit ''of'', ws1]),
       Grp 1 (Rep False 10 (Some 80) Dot), alts [lit ''.'', lit '','', seqs [Wordb, lit ''and'',
       Wordb]]],
     seqs [seqs [lit ''the'', ws1, alts [lit ''problem'', lit ''task'', lit ''challenge''], ws1,
       lit ''of''], ws1, Grp 1 (Rep False 10 (Some 80) Dot), alts [lit ''.'', lit '','']],
     seqs [seqs [lit ''this'', ws1, alts [lit ''paper'', lit ''work'', lit ''study''], ws1,
       alts [lit ''addresses'', lit ''tackles'', seqs [lit ''focuses'', ws1, lit ''on''],
       lit ''investigates'']], ws1, Grp 1 (Rep False 10 (Some 80) Dot), alts [lit ''.'',
       lit '','']]]"

text \<open>
  \<^verbatim>\<open>(?:compared?\s+(?:with|to|against)|baseline[s]?(?:\s+(?:include|are))?)[:\s]+(.{5,200}?)(?:\.|$)\<close>

  \<^verbatim>\<open>(?:outperform[s]?|surpass(?:es)?|exceed[s]?)\s+(.{5,80}?)(?:\s+(?:by|on|in|with)\b|\.|,)\<close>
\<close>

definition baseline_patterns :: "regex list" where
  "baseline_patterns =
    [seqs [alts [seqs [lit ''compare'', ropt (lit ''d''), ws1, alts [lit ''with'', lit ''to'',
       lit ''against'']], seqs [lit ''baseline'', ropt (Cls (\<lambda>c. c = 115)),
       ropt (seqs [ws1, alts [lit ''include'', lit ''are'']])]],
       rplus (Cls (\<lambda>c. c = 58 \<or> is_space c)), Grp 1 (Rep False 5 (Some 200) Dot),
       alts [lit ''.'', Eol]],
     seqs [alts [seqs [lit ''outperform'', ropt (Cls (\<lambda>c. c = 115))],
       seqs [lit ''surpass'', ropt (lit ''es'')], seqs [lit ''exceed'',
       ropt (Cls (\<lambda>c. c = 115))]], ws1, Grp 1 (Rep False 5 (Some 80) Dot),
       alts [seqs [ws1, alts [lit ''by'', lit ''on'', lit ''in'', lit ''with''], Wordb],
       lit ''.'', lit '','']]]"

text \<open>\<^verbatim>\<open>,\s*|\s+and\s+\<close>\<close>

definition baseline_split_re :: regex where
  "baseline_split_re =
     alts [seqs [lit '','', ws], seqs [ws1, lit ''and'', ws1]]"

subsection \<open>_match_patterns\<close>

text \<open>
  The helpers add to the caller's set \<^verbatim>\<open>seen\<close>, so each of them returns its results
  together with the new set. Every pattern of the libraries has one group, so
  \<^verbatim>\<open>m.lastindex\<close> is set exactly when group 1 took part in the match.
\<close>

definition match_step :: "ustr \<Rightarrow> string \<Rightarrow> Entity list \<times> ustr set \<Rightarrow> match_obj
    \<Rightarrow> Entity list \<times> ustr set" where
  "match_step text0 ty st m =
     (let matched = (case group text0 m 1 of Some t \<Rightarrow> t | None \<Rightarrow> group0 text0 m);
          key = strip (lower matched)
      in if key \<notin> snd st \<and> 1 < length key
         then (fst st @ [\<lparr>entity_text = strip matched, entity_type = ty, confidence = 8 / 10\<rparr>],
               insert key (snd st))
         else st)"

definition match_patterns :: "ustr \<Rightarrow> regex list \<Rightarrow> string \<Rightarrow> ustr set
    \<Rightarrow> Entity list \<times> ustr set" where
  "match_patterns text0 patterns ty seen =
     foldl (\<lambda>st pattern. foldl (match_step text0 ty) st (re_finditer True False pattern text0))
       ([], seen) patterns"

subsection \<open>_extract_research_problems\<close>

definition problem_step :: "ustr \<Rightarrow> Entity list \<times> ustr set \<Rightarrow> match_obj
    \<Rightarrow> py_error + Entity list \<times> ustr set" where
  "problem_step text0 st m =
     (case group text0 m 1 of
        None \<Rightarrow> Inl AttributeError
      | Some g1 \<Rightarrow>
          (let matched = strip g1; key = lower matched
           in if key \<notin> snd st \<and> 10 < length matched \<and> length matched < 200
              then Inr (fst st @ [\<lparr>entity_text = matched, entity_type = ''research_problem'',
                                    confidence = 6 / 10\<rparr>],
                        insert key (snd st))
              else Inr st))"

definition extract_research_problems :: "ustr \<Rightarrow> ustr set \<Rightarrow> py_error + Entity list \<times> ustr set" where
  "extract_research_problems text0 seen =
     fold_err (\<lambda>st pattern. fold_err (problem_step text0) st (re_finditer True False pattern text0))
       ([], seen) problem_patterns"

subsection \<open>_extract_baselines\<close>

text \<open>
  \<^verbatim>\<open>part[0]\<close> is read only after \<^verbatim>\<open>2 < len(part)\<close> has been checked, so the empty
  case of the last test is never reached by the source.
\<close>

definition part_step :: "Entity list \<times> ustr set \<Rightarrow> ustr \<Rightarrow> Entity list \<times> ustr set" where
  "part_step st part0 =
     (let part = rstrip_chars (cps ''.'') (strip part0); key = lower part
      in if key \<notin> snd st \<and> 2 < length part \<and> length part < 80
            \<and> (case part of [] \<Rightarrow> False | c # cs \<Rightarrow> \<not> is_lower_char c)
         then (fst st @ [\<lparr>entity_text = part, entity_type = ''baseline'', confidence = 6 / 10\<rparr>],
               insert key (snd st))
         else st)"

definition baseline_step :: "ustr \<Rightarrow> Entity list \<times> ustr set \<Rightarrow> match_obj
    \<Rightarrow> py_error + Entity list \<times> ustr set" where
  "baseline_step text0 st m =
     (case group text0 m 1 of
        None \<Rightarrow> Inl AttributeError
      | Some g1 \<Rightarrow>
          Inr (foldl part_step st (re_split0 False False baseline_split_re 0 (strip g1))))"

definition extract_baselines :: "ustr \<Rightarrow> ustr set \<Rightarrow> py_error + Entity list \<times> ustr set" where
  "extract_baselines text0 seen =
     fold_err (\<lambda>st pattern. fold_err (baseline_step text0) st (re_finditer True False pattern text0))
       ([], seen) baseline_patterns"

subsection \<open>extract_entities\<close>

definition generic_step :: "ustr \<Rightarrow> Entity list \<times> ustr set \<Rightarrow> match_obj
    \<Rightarrow> py_error + Entity list \<times> ustr set" where
  "generic_step text0 st m =
     (case group text0 m 1 of
        None \<Rightarrow> Inl AttributeError
      | Some g1 \<Rightarrow>
          (let name = strip g1; key = lower name
           in if key \<notin> snd st \<and> 2 < length name
              then Inr (fst st @ [\<lparr>entity_text = name, entity_type = ''dataset'',
                                    confidence = 65 / 100\<rparr>],
                        insert key (snd st))
              else Inr st))"

text \<open>
  \<open>entities\<close> grows by \<^verbatim>\<open>extend\<close> and \<^verbatim>\<open>append\<close>; \<open>extend_with\<close> appends the
  results of a helper and passes its set on.
\<close>

definition extend_with :: "Entity list \<Rightarrow> Entity list \<times> ustr set \<Rightarrow> Entity list \<times> ustr set" where
  "extend_with entities res = (entities @ fst res, snd res)"

definition known_entities :: "ustr \<Rightarrow> Entity list \<times> ustr set" where
  "known_entities text0 =
     (let s1 = extend_with [] (match_patterns text0 DATASET_PATTERNS ''dataset'' {});
          s2 = extend_with (fst s1) (match_patterns text0 METRIC_PATTERNS ''metric'' (snd s1));
          s3 = extend_with (fst s2) (match_patterns text0 METHOD_PATTERNS ''method'' (snd s2));
          s4 = extend_with (fst s3) (match_patterns text0 TOOL_PATTERNS ''tool'' (snd s3));
          s5 = extend_with (fst s4) (match_patterns text0 THEORY_PATTERNS ''theory'' (snd s4))
      in s5)"

definition extract_entities :: "ustr \<Rightarrow> ustr \<Rightarrow> py_error + Entity list" where
  "extract_entities section_type0 content0 =
     (if content0 = [] \<or> length (strip content0) < 30 then Inr []
      else
        (let text0 = take 12000 content0;
             s5 = known_entities text0
         in case fold_err (generic_step text0) s5 (re_finditer True False DATASET_GENERIC text0) of
              Inl e \<Rightarrow> Inl e
            | Inr s6 \<Rightarrow>
                (case (if section_type0 \<in> set (map cps [''abstract'', ''introduction'', ''other''])
                       then (case extract_research_problems text0 (snd s6) of
                               Inl e \<Rightarrow> Inl e
                             | Inr res \<Rightarrow> Inr (extend_with (fst s6) res))
                       else Inr s6) of
                   Inl e \<Rightarrow> Inl e
                 | Inr s7 \<Rightarrow>
                     (case (if section_type0 \<in> set (map cps [''experiments'', ''results'',
                                                              ''discussion'', ''other''])
                            then (case extract_baselines text0 (snd s7) of
                                    Inl e \<Rightarrow> Inl e
                                  | Inr res \<Rightarrow> Inr (extend_with (fst s7) res))
                            else Inr s7) of
                        Inl e \<Rightarrow> Inl e
                      | Inr s8 \<Rightarrow> Inr (fst s8)))))"

section \<open>The relationship extractor\<close>

record Relationship =
  source :: ustr
  target :: ustr
  relation_type :: string
  description :: ustr
  rel_confidence :: rat

text \<open>
  The table \<^verbatim>\<open>RELATION_INDICATORS\<close>, in the order of the dictionary; a template
  is a function of the two escaped, lower-cased entity texts:

  \<^item> uses: \<^verbatim>\<open>{src}\s+(?:uses?|utilizes?|employs?|leverages?|applies)\s+{tgt}\<close>, \<^verbatim>\<open>{tgt}\s+(?:is\s+)?(?:used|utilized|employed|applied)\s+(?:by|in|for)\s+{src}\<close>, \<^verbatim>\<open>(?:using|with|via|through)\s+{tgt}\<close>
  \<^item> evaluates_on: \<^verbatim>\<open>{src}\s+(?:on|evaluated?\s+on|tested?\s+on|benchmarked?\s+on)\s+{tgt}\<close>, \<^verbatim>\<open>(?:evaluate|test|benchmark)\s+{src}\s+on\s+{tgt}\<close>, \<^verbatim>\<open>(?:results?\s+on|performance\s+on)\s+{tgt}\<close>
  \<^item> improves: \<^verbatim>\<open>{src}\s+(?:improves?|outperforms?|surpass(?:es)?|exceeds?|beats?)\s+{tgt}\<close>, \<^verbatim>\<open>{src}\s+(?:achieves?\s+(?:better|higher|superior)\s+(?:\w+\s+)?(?:than|over))\s+{tgt}\<close>
  \<^item> comparative: \<^verbatim>\<open>{src}\s+(?:compared?\s+(?:to|with)|vs\.?|versus)\s+{tgt}\<close>, \<^verbatim>\<open>(?:comparison\s+(?:between|of))\s+{src}\s+and\s+{tgt}\<close>
  \<^item> part_of: \<^verbatim>\<open>{src}\s+(?:component|module|layer|part)\s+of\s+{tgt}\<close>, \<^verbatim>\<open>{tgt}\s+(?:consists?\s+of|includes?|contains?)\s+{src}\<close>
\<close>

definition RELATION_INDICATORS :: "(string \<times> (ustr \<Rightarrow> ustr \<Rightarrow> regex) list) list" where
  "RELATION_INDICATORS =
    [(''uses'',
      [(\<lambda>src tgt. seqs [litu src, ws1, alts [seqs [lit ''use'', ropt (lit ''s'')],
         seqs [lit ''utilize'', ropt (lit ''s'')], seqs [lit ''employ'', ropt (lit ''s'')],
         seqs [lit ''leverage'', ropt (lit ''s'')], lit ''applies''], ws1, litu tgt]),
       (\<lambda>src tgt. seqs [litu tgt, ws1, ropt (seqs [lit ''is'', ws1]),
         alts [lit ''used'', lit ''utilized'', lit ''employed'', lit ''applied''], ws1,
         alts [lit ''by'', lit ''in'', lit ''for''], ws1, litu src]),
       (\<lambda>src tgt. seqs [alts [lit ''using'', lit ''with'', lit ''via'',
         lit ''through''], ws1, litu tgt])]),
     (''evaluates_on'',
      [(\<lambda>src tgt. seqs [litu src, ws1, alts [lit ''on'', seqs [lit ''evaluate'',
         ropt (lit ''d''), ws1, lit ''on''], seqs [lit ''teste'', ropt (lit ''d''), ws1,
         lit ''on''], seqs [lit ''benchmarke'', ropt (lit ''d''), ws1, lit ''on'']], ws1,
         litu tgt]),
       (\<lambda>src tgt. seqs [alts [lit ''evaluate'', lit ''test'', lit ''benchmark''], ws1,
         litu src, ws1, lit ''on'', ws1, litu tgt]),
       (\<lambda>src tgt. seqs [alts [seqs [lit ''result'', ropt (lit ''s''), ws1, lit ''on''],
         seqs [lit ''performance'', ws1, lit ''on'']], ws1, litu tgt])]),
     (''improves'',
      [(\<lambda>src tgt. seqs [litu src, ws1, alts [seqs [lit ''improve'', ropt (lit ''s'')],
         seqs [lit ''outperform'', ropt (lit ''s'')], seqs [lit ''surpass'', ropt (lit ''es'')],
         seqs [lit ''exceed'', ropt (lit ''s'')], seqs [lit ''beat'', ropt (lit ''s'')]], ws1,
         litu tgt]),
       (\<lambda>src tgt. seqs [litu src, ws1, seqs [lit ''achieve'', ropt (lit ''s''), ws1,
         alts [lit ''better'', lit ''higher'', lit ''superior''], ws1,
         ropt (seqs [rplus (Cls is_word), ws1]), alts [lit ''than'', lit ''over'']], ws1,
         litu tgt])]),
     (''comparative'',
      [(\<lambda>src tgt. seqs [litu src, ws1, alts [seqs [lit ''compare'', ropt (lit ''d''),
         ws1, alts [lit ''to'', lit ''with'']], seqs [lit ''vs'', ropt (lit ''.'')],
         lit ''versus''], ws1, litu tgt]),
       (\<lambda>src tgt. seqs [seqs [lit ''comparison'', ws1, alts [lit ''between'',
         lit ''of'']], ws1, litu src, ws1, lit ''and'', ws1, litu tgt])]),
     (''part_of'',
      [(\<lambda>src tgt. seqs [litu src, ws1, alts [lit ''component'', lit ''module'',
         lit ''layer'', lit ''part''], ws1, lit ''of'', ws1, litu tgt]),
       (\<lambda>src tgt. seqs [litu tgt, ws1, alts [seqs [lit ''consist'', ropt (lit ''s''),
         ws1, lit ''of''], seqs [lit ''include'', ropt (lit ''s'')], seqs [lit ''contain'',
         ropt (lit ''s'')]], ws1, litu src])])]"

definition TYPE_RELATIONS :: "((string \<times> string) \<times> string) list" where
  "TYPE_RELATIONS =
    [((''method'', ''dataset''), ''evaluates_on''),
     ((''method'', ''metric''), ''evaluates_on''),
     ((''method'', ''tool''), ''uses''),
     ((''method'', ''theory''), ''uses''),
     ((''method'', ''baseline''), ''comparative''),
     ((''innovation'', ''method''), ''improves''),
     ((''innovation'', ''baseline''), ''improves''),
     ((''research_problem'', ''method''), ''causal''),
     ((''research_problem'', ''innovation''), ''causal'')]"

subsection \<open>_entities_co_occur\<close>

definition entities_co_occur :: "ustr \<Rightarrow> ustr \<Rightarrow> ustr \<Rightarrow> int \<Rightarrow> bool" where
  "entities_co_occur e1_text e2_text context0 window =
     (let text_lower = lower context0;
          pos1 = map fst (re_finditer False False (litu (lower e1_text)) text_lower);
          pos2 = map fst (re_finditer False False (litu (lower e2_text)) text_lower)
      in if pos1 = [] \<or> pos2 = [] then False
         else list_ex (\<lambda>p1. list_ex (\<lambda>p2. \<bar>int p1 - int p2\<bar> < window) pos2) pos1)"

subsection \<open>_check_pattern_relation\<close>

definition check_pattern_relation :: "ustr \<Rightarrow> ustr \<Rightarrow> ustr \<Rightarrow> string option" where
  "check_pattern_relation src_text tgt_text context0 =
     (let text_lower = lower context0;
          src_esc = lower src_text;
          tgt_esc = lower tgt_text
      in case find (\<lambda>(rel_type, patterns).
                      list_ex (\<lambda>template.
                                 re_search False False (template src_esc tgt_esc) text_lower \<noteq> None)
                        patterns)
                RELATION_INDICATORS of
           None \<Rightarrow> None
         | Some (rel_type, patterns) \<Rightarrow> Some rel_type)"

subsection \<open>extract_relationships\<close>

definition make_rel :: "ustr \<Rightarrow> ustr \<Rightarrow> string \<Rightarrow> rat \<Rightarrow> Relationship" where
  "make_rel src_text tgt_text rel_type conf =
     \<lparr>source = src_text, target = tgt_text, relation_type = rel_type,
      description = src_text @ [32] @ cps rel_type @ [32] @ tgt_text,
      rel_confidence = conf\<rparr>"

type_synonym rel_state = "Relationship list \<times> (ustr \<times> ustr) set"

text \<open>The body of the inner loop, for the entities at the indices \<open>i\<close> and \<open>j\<close>.\<close>

definition pair_step :: "ustr \<Rightarrow> nat \<Rightarrow> Entity \<Rightarrow> nat \<Rightarrow> Entity \<Rightarrow> rel_state \<Rightarrow> rel_state" where
  "pair_step context0 i e1 j e2 st =
     (if j \<le> i then st
      else
        (let src_text = entity_text e1; tgt_text = entity_text e2;
             pair_key = (lower src_text, lower tgt_text)
         in if pair_key \<in> snd st then st
            else
              (case check_pattern_relation src_text tgt_text context0 of
                 Some rel_type \<Rightarrow>
                   (fst st @ [make_rel src_text tgt_text rel_type (7 / 10)], insert pair_key (snd st))
               | None \<Rightarrow>
                   (case check_pattern_relation tgt_text src_text context0 of
                      Some rel_type \<Rightarrow>
                        (fst st @ [make_rel tgt_text src_text rel_type (7 / 10)],
                         insert pair_key (snd st))
                    | None \<Rightarrow>
                        if entities_co_occur src_text tgt_text context0 250 then
                          (case map_of TYPE_RELATIONS (entity_type e1, entity_type e2) of
                             Some rel_type \<Rightarrow>
                               (fst st @ [make_rel src_text tgt_text rel_type (5 / 10)],
                                insert pair_key (snd st))
                           | None \<Rightarrow>
                               (case map_of TYPE_RELATIONS (entity_type e2, entity_type e1) of
                                  Some rel_type \<Rightarrow>
                                    (fst st @ [make_rel tgt_text src_text rel_type (5 / 10)],
                                     insert pair_key (snd st))
                                | None \<Rightarrow> st))
                        else st))))"

definition extract_relationships :: "Entity list \<Rightarrow> ustr \<Rightarrow> Relationship list" where
  "extract_relationships entities context0 =
     (if entities = [] \<or> length entities < 2 then []
      else
        (let limited = take 40 entities
         in fst (foldl (\<lambda>st ie1.
                          foldl (\<lambda>st' je2. pair_step context0 (fst ie1) (snd ie1) (fst je2) (snd je2) st')
                            st (enumerate 0 limited))
                   ([], {}) (enumerate 0 limited))))"

section \<open>The table extractor\<close>


record TableRecord =
  page :: int
  headers :: "ustr list"
  rows :: "ustr list list"
  caption :: ustr

subsection \<open>_find_table_caption and _clean_caption\<close>










subsection \<open>extract_tables_from_pdf\<close>








section \<open>Groups that take part in every match\<close>

text \<open>
  \<open>always_sets r n\<close>: group \<open>n\<close> lies on every path through \<open>r\<close>, so it has a span
  in every match of \<open>r\<close>.
\<close>

fun always_sets :: "regex \<Rightarrow> nat \<Rightarrow> bool" where
  "always_sets (Grp m r) n = (m = n \<or> always_sets r n)"
| "always_sets (Seq a b) n = (always_sets a n \<or> always_sets b n)"
| "always_sets (Alt a b) n = (always_sets a n \<and> always_sets b n)"
| "always_sets (Rep gr lo hi r) n = (0 < lo \<and> always_sets r n)"
| "always_sets (Ahead r) n = always_sets r n"
| "always_sets r n = False"












section \<open>Concrete inputs\<close>

text \<open>The inputs at which the claims are evaluated.\<close>

definition smith_doe :: ustr where
  "smith_doe = cps ''[1] Smith, J. and Doe, A. Deep Learning. NeurIPS, 2019.''"

definition no_pages :: ParsedDocument where
  "no_pages = \<lparr>pages = [], page_count = 0, metadata = []\<rparr>"

definition one_page :: ParsedDocument where
  "one_page =
     \<lparr>pages = [\<lparr>page_index = 0, width = 612, height = 792, blocks = [],
                 raw_text = cps ''Hello''\<rparr>],
      page_count = 1, metadata = []\<rparr>"

text \<open>
  The two quantities in the words of claim C2: the number of CJK code points, and the
  number of characters that are not whitespace.
\<close>

definition cjk_count :: "ustr \<Rightarrow> nat" where
  "cjk_count t = length (filter (\<lambda>c. 19968 \<le> c \<and> c \<le> 40959) t)"

definition non_whitespace_length :: "ustr \<Rightarrow> nat" where
  "non_whitespace_length t = length (filter (\<lambda>c. \<not> is_space c) t)"

text \<open>One CJK character, three blanks and a letter.\<close>

definition spaced_text :: ustr where
  "spaced_text = [20013, 32, 32, 32, 97]"

text \<open>
  Signal (a) in the words of claim C3: font size at least the heading size, and bold or
  more than half a point above the body size.
\<close>

definition signal_a :: "rat \<Rightarrow> rat \<Rightarrow> TextBlock \<Rightarrow> bool" where
  "signal_a body_size heading_size block =
     (heading_size \<le> font_size block \<and> (is_bold block \<or> body_size + 1 / 2 < font_size block))"

text \<open>
  A section being collected, and three fragments on the next page for a body size of 12
  and a heading size of 14: a bold one at the heading size, a larger one, and a larger
  one of 200 characters.
\<close>

definition open_methods :: Section where
  "open_methods =
     \<lparr>section_type = ''methods'', heading = cps ''Methods'', content = cps ''We train. '',
      page_start = 0, page_end = 0\<rparr>"

definition bold_fragment :: TextBlock where
  "bold_fragment =
     \<lparr>block_text = cps ''Foo'', font_size = 14, font_name = cps ''Times-Bold'', is_bold = True,
      page_num = 1, bbox = (72, 100, 200, 114)\<rparr>"

definition large_fragment :: TextBlock where
  "large_fragment =
     \<lparr>block_text = cps ''Foo'', font_size = 16, font_name = cps ''Times'', is_bold = False,
      page_num = 1, bbox = (72, 100, 200, 116)\<rparr>"

definition long_fragment :: TextBlock where
  "long_fragment =
     \<lparr>block_text = replicate 200 122, font_size = 16, font_name = cps ''Times'', is_bold = False,
      page_num = 1, bbox = (72, 100, 500, 116)\<rparr>"

text \<open>Two reference lines without markers.\<close>

definition two_line_refs :: ustr where
  "two_line_refs =
     cps ''Smith J. Deep Learning for Vision. 2019'' @ [10]
       @ cps ''Doe A. Another Long Paper Title. 2020''"

text \<open>The entities and the context of claim C7.\<close>

definition bert :: Entity where
  "bert = \<lparr>entity_text = cps ''BERT'', entity_type = ''method'', confidence = 8 / 10\<rparr>"

definition glue :: Entity where
  "glue = \<lparr>entity_text = cps ''GLUE'', entity_type = ''dataset'', confidence = 8 / 10\<rparr>"

definition bert_on_glue :: ustr where
  "bert_on_glue = cps ''We evaluate BERT on GLUE''"

text \<open>A sentence of an experiments section that names the same baseline twice.\<close>

definition compared_twice :: ustr where
  "compared_twice = cps ''Our model was compared with Abc ., Abc''"





section \<open>Properties of the matcher\<close>

lemma rmatch_groups:
  "rmatch ic ds r c g k = Some res \<Longrightarrow>
   \<exists>c' g'. k c' g' = Some res \<and> fst ` set g \<subseteq> fst ` set g'
     \<and> (\<forall>n. always_sets r n \<longrightarrow> n \<in> fst ` set g')"
proof (induction ic ds r c g k arbitrary: res rule: rmatch.induct)
  case (1 ic ds c g k)
  then show ?case by (intro exI[of _ c] exI[of _ g]) simp
next
  case (2 ic ds p i pv s g k)
  then show ?case by (auto split: list.splits if_splits)
next
  case (3 ic ds i pv s g k)
  then show ?case by (auto split: list.splits if_splits)
next
  case (4 ic ds a b c g k)
  from "4.prems" have "rmatch ic ds a c g (\<lambda>c' g'. rmatch ic ds b c' g' k) = Some res"
    by simp
  from "4.IH"(2)[OF this] obtain c1 g1 where
    b: "rmatch ic ds b c1 g1 k = Some res" and s1: "fst ` set g \<subseteq> fst ` set g1"
    and a1: "\<forall>n. always_sets a n \<longrightarrow> n \<in> fst ` set g1" by blast
  from "4.IH"(1)[OF b] obtain c2 g2 where
    k: "k c2 g2 = Some res" and s2: "fst ` set g1 \<subseteq> fst ` set g2"
    and a2: "\<forall>n. always_sets b n \<longrightarrow> n \<in> fst ` set g2" by blast
  from s1 s2 a1 a2 have "fst ` set g \<subseteq> fst ` set g2
      \<and> (\<forall>n. always_sets (Seq a b) n \<longrightarrow> n \<in> fst ` set g2)"
    by auto
  with k show ?case by blast
next
  case (5 ic ds a b c g k)
  show ?case
  proof (cases "rmatch ic ds a c g k")
    case None
    with "5.prems" have "rmatch ic ds b c g k = Some res" by simp
    from "5.IH"(2)[OF None this] obtain c1 g1 where
      "k c1 g1 = Some res" "fst ` set g \<subseteq> fst ` set g1"
      "\<forall>n. always_sets b n \<longrightarrow> n \<in> fst ` set g1" by blast
    then have "k c1 g1 = Some res \<and> fst ` set g \<subseteq> fst ` set g1
        \<and> (\<forall>n. always_sets (Alt a b) n \<longrightarrow> n \<in> fst ` set g1)" by simp
    then show ?thesis by blast
  next
    case (Some r1)
    with "5.prems" have "rmatch ic ds a c g k = Some res" by simp
    from "5.IH"(1)[OF this] obtain c1 g1 where
      "k c1 g1 = Some res" "fst ` set g \<subseteq> fst ` set g1"
      "\<forall>n. always_sets a n \<longrightarrow> n \<in> fst ` set g1" by blast
    then have "k c1 g1 = Some res \<and> fst ` set g \<subseteq> fst ` set g1
        \<and> (\<forall>n. always_sets (Alt a b) n \<longrightarrow> n \<in> fst ` set g1)" by simp
    then show ?thesis by blast
  qed
next
  case (6 ic ds n r c g k)
  from "6.prems" have "rmatch ic ds r c g (\<lambda>c' g'. k c' ((n, fst c, fst c') # g')) = Some res"
    by simp
  from "6.IH"[OF this] obtain c1 g1 where
    k: "k c1 ((n, fst c, fst c1) # g1) = Some res" and s1: "fst ` set g \<subseteq> fst ` set g1"
    and a1: "\<forall>m. always_sets r m \<longrightarrow> m \<in> fst ` set g1" by blast
  from s1 a1 have "fst ` set g \<subseteq> fst ` set ((n, fst c, fst c1) # g1)
      \<and> (\<forall>m. always_sets (Grp n r) m \<longrightarrow> m \<in> fst ` set ((n, fst c, fst c1) # g1))"
    by auto
  with k show ?case by blast
next
  case (7 ic ds c g k)
  then have "k c g = Some res" by (simp split: if_splits)
  then show ?case by (intro exI[of _ c] exI[of _ g]) simp
next
  case (8 ic ds i pv s g k)
  then show ?case by (auto split: if_splits)
next
  case (9 ic ds i pv s g k)
  then show ?case by (auto split: if_splits)
next
  case (10 ic ds r c g k)
  from "10.prems" obtain c1 g1 where
    a: "rmatch ic ds r c g (\<lambda>c' g'. Some (c', g')) = Some (c1, g1)" and k: "k c g1 = Some res"
    by (auto split: option.splits)
  from "10.IH"[OF a] have "fst ` set g \<subseteq> fst ` set g1
      \<and> (\<forall>n. always_sets (Ahead r) n \<longrightarrow> n \<in> fst ` set g1)"
    by auto
  with k show ?case by blast
next
  case (11 ic ds gr lo hi r c g k)
  show ?case
  proof (cases "0 < lo")
    case True
    with "11.prems" have
      "rmatch ic ds r c g (\<lambda>c' g'. rmatch ic ds (Rep gr (lo - 1) (dec_hi hi) r) c' g' k) = Some res"
      by simp
    from "11.IH"(2)[OF True this] obtain c1 g1 where
      b: "rmatch ic ds (Rep gr (lo - 1) (dec_hi hi) r) c1 g1 k = Some res"
      and s1: "fst ` set g \<subseteq> fst ` set g1"
      and a1: "\<forall>n. always_sets r n \<longrightarrow> n \<in> fst ` set g1" by blast
    from "11.IH"(1)[OF True b] obtain c2 g2 where
      k: "k c2 g2 = Some res" and s2: "fst ` set g1 \<subseteq> fst ` set g2" by blast
    from s1 s2 a1 have "fst ` set g \<subseteq> fst ` set g2
        \<and> (\<forall>n. always_sets (Rep gr lo hi r) n \<longrightarrow> n \<in> fst ` set g2)"
      by auto
    with k show ?thesis by blast
  next
    case lo0: False
    have none: "\<forall>n. \<not> always_sets (Rep gr lo hi r) n"
      using lo0 by simp
    let ?loop = "\<lambda>c' g'. if length (snd (snd c')) < length (snd (snd c))
                then rmatch ic ds (Rep gr 0 (dec_hi hi) r) c' g' k else None"
    show ?thesis
    proof (cases "hi = Some 0")
      case True
      with lo0 "11.prems" have "k c g = Some res" by simp
      with none show ?thesis by blast
    next
      case hi0: False
      define body where "body = rmatch ic ds r c g ?loop"
      have eq: "rmatch ic ds (Rep gr lo hi r) c g k =
          (if gr then (case body of Some x \<Rightarrow> Some x | None \<Rightarrow> k c g)
           else (case k c g of Some x \<Rightarrow> Some x | None \<Rightarrow> body))"
        unfolding body_def
        by (subst rmatch.simps) (simp only: lo0 hi0 if_False)
      with "11.prems" have res: "(if gr then (case body of Some x \<Rightarrow> Some x | None \<Rightarrow> k c g)
           else (case k c g of Some x \<Rightarrow> Some x | None \<Rightarrow> body)) = Some res"
        by simp
      have direct: "k c g = Some res \<Longrightarrow> ?thesis"
        using none by blast
      have looping: ?thesis if b: "body = Some res" and
        ih: "\<And>c1 g1. length (snd (snd c1)) < length (snd (snd c)) \<Longrightarrow>
               rmatch ic ds (Rep gr 0 (dec_hi hi) r) c1 g1 k = Some res \<Longrightarrow>
               \<exists>c' g'. k c' g' = Some res \<and> fst ` set g1 \<subseteq> fst ` set g'"
        and ihb: "rmatch ic ds r c g ?loop = Some res \<Longrightarrow>
               \<exists>c' g'. ?loop c' g' = Some res \<and> fst ` set g \<subseteq> fst ` set g'"
      proof -
        from b have "rmatch ic ds r c g ?loop = Some res" by (simp add: body_def)
        from ihb[OF this] obtain c1 g1 where
          l: "?loop c1 g1 = Some res" and s1: "fst ` set g \<subseteq> fst ` set g1" by blast
        from l have len: "length (snd (snd c1)) < length (snd (snd c))"
          and r1: "rmatch ic ds (Rep gr 0 (dec_hi hi) r) c1 g1 k = Some res"
          by (auto split: if_splits)
        from ih[OF len r1] obtain c2 g2 where
          k: "k c2 g2 = Some res" and s2: "fst ` set g1 \<subseteq> fst ` set g2" by blast
        from s1 s2 have "fst ` set g \<subseteq> fst ` set g2" by auto
        with k none show ?thesis by blast
      qed
      show ?thesis
      proof (cases gr)
        case True
        show ?thesis
        proof (cases body)
          case None
          with res True have "k c g = Some res" by simp
          then show ?thesis by (rule direct)
        next
          case (Some r1)
          with res True have b: "body = Some res" by simp
          show ?thesis
          proof (rule looping[OF b])
            fix c1 g1
            assume "length (snd (snd c1)) < length (snd (snd c))"
              and "rmatch ic ds (Rep gr 0 (dec_hi hi) r) c1 g1 k = Some res"
            from "11.IH"(3)[OF lo0 hi0 True this]
            show "\<exists>c' g'. k c' g' = Some res \<and> fst ` set g1 \<subseteq> fst ` set g'" by blast
          next
            assume "rmatch ic ds r c g ?loop = Some res"
            from "11.IH"(4)[OF lo0 hi0 True this]
            show "\<exists>c' g'. ?loop c' g' = Some res \<and> fst ` set g \<subseteq> fst ` set g'" by blast
          qed
        qed
      next
        case False
        show ?thesis
        proof (cases "k c g")
          case (Some r1)
          with res False have "k c g = Some res" by simp
          then show ?thesis by (rule direct)
        next
          case None
          with res False have b: "body = Some res" by simp
          show ?thesis
          proof (rule looping[OF b])
            fix c1 g1
            assume "length (snd (snd c1)) < length (snd (snd c))"
              and "rmatch ic ds (Rep gr 0 (dec_hi hi) r) c1 g1 k = Some res"
            from "11.IH"(5)[OF lo0 hi0 False None this]
            show "\<exists>c' g'. k c' g' = Some res \<and> fst ` set g1 \<subseteq> fst ` set g'" by blast
          next
            assume "rmatch ic ds r c g ?loop = Some res"
            from "11.IH"(6)[OF lo0 hi0 False None this]
            show "\<exists>c' g'. ?loop c' g' = Some res \<and> fst ` set g \<subseteq> fst ` set g'" by blast
          qed
        qed
      qed
    qed
  qed
qed

lemma match_at_group:
  assumes "match_at ic ds r c = Some m" and "always_sets r n"
  shows "\<exists>sp. group_span (snd (snd m)) n = Some sp"
proof -
  from assms(1) obtain c1 g1 where
    a: "rmatch ic ds r c [] (\<lambda>c' g'. Some (c', g')) = Some (c1, g1)" and m: "m = (fst c, fst c1, g1)"
    by (auto simp: match_at_def split: option.splits)
  from rmatch_groups[OF a] assms(2) have "n \<in> fst ` set g1" by auto
  then have "map_of g1 n \<noteq> None" by (simp add: map_of_eq_None_iff)
  with m show ?thesis by (auto simp: group_span_def)
qed

lemma search_from_group:
  "search_from ic ds r c = Some m \<Longrightarrow> always_sets r n \<Longrightarrow>
   \<exists>sp. group_span (snd (snd m)) n = Some sp"
proof (induction ic ds r c rule: search_from.induct)
  case (1 ic ds r i pv)
  from "1.prems"(1) have "match_at ic ds r (i, pv, []) = Some m" by simp
  from this "1.prems"(2) show ?case by (rule match_at_group)
next
  case (2 ic ds r i pv x xs)
  show ?case
  proof (cases "match_at ic ds r (i, pv, x # xs)")
    case None
    with 2 show ?thesis by simp
  next
    case (Some m1)
    with "2.prems" have "match_at ic ds r (i, pv, x # xs) = Some m" by simp
    from this "2.prems"(2) show ?thesis by (rule match_at_group)
  qed
qed

lemma find_from_group:
  "m \<in> set (find_from ic ds r nxt c) \<Longrightarrow> always_sets r n \<Longrightarrow>
   \<exists>sp. group_span (snd (snd m)) n = Some sp"
proof (induction ic ds r nxt c rule: find_from.induct)
  case (1 ic ds r nxt i pv)
  from "1.prems"(1) have "match_at ic ds r (i, pv, []) = Some m"
    by (auto split: if_splits option.splits)
  from this "1.prems"(2) show ?case by (rule match_at_group)
next
  case (2 ic ds r nxt i pv x xs)
  show ?case
  proof (cases "i < nxt")
    case True
    with 2 show ?thesis by simp
  next
    case nlt: False
    show ?thesis
    proof (cases "match_at ic ds r (i, pv, x # xs)")
      case None
      with nlt 2 show ?thesis by simp
    next
      case (Some m1)
      obtain st en g1 where m1: "m1 = (st, en, g1)" by (cases m1)
      from "2.prems"(1) nlt Some m1 have
        "m = m1 \<or> m \<in> set (find_from ic ds r (if en = st then Suc en else en) (Suc i, Some x, xs))"
        by auto
      then show ?thesis
      proof
        assume "m = m1"
        with Some have "match_at ic ds r (i, pv, x # xs) = Some m" by simp
        from this "2.prems"(2) show ?thesis by (rule match_at_group)
      next
        assume "m \<in> set (find_from ic ds r (if en = st then Suc en else en) (Suc i, Some x, xs))"
        with "2.IH"(3)[OF nlt Some m1[symmetric]] "2.prems"(2) m1 show ?thesis by auto
      qed
    qed
  qed
qed

lemma re_search_group:
  "re_search ic ds r s = Some m \<Longrightarrow> always_sets r n \<Longrightarrow> \<exists>t. group s m n = Some t"
  by (auto simp: re_search_def group_def dest: search_from_group)

lemma re_finditer_group:
  "m \<in> set (re_finditer ic ds r s) \<Longrightarrow> always_sets r n \<Longrightarrow> \<exists>t. group s m n = Some t"
  by (auto simp: re_finditer_def group_def dest: find_from_group)

section \<open>Evaluation\<close>

text \<open>The defining equations used to run the model on concrete inputs.\<close>

lemmas str_defs = cps_def lower_def strip_def lstrip_def rstrip_def rstrip_chars_def is_space_def
  is_digit_def is_word_def is_upper_char_def is_lower_char_def to_lower_def to_upper_def
  slice_def isdigit_def isdigit_char_def py_int_def isupper_def

lemmas re_core = cmatch_def match_at_def re_match_def re_search_def group_def
  group0_def group_span_def chr_def lit_def litu_def rstar_def rplus_def ropt_def
  rplus_lazy_def ws_def ws1_def numbering_def

lemmas re_defs = re_core re_finditer_def re_sub_empty_def re_findall0_def re_findall1_def
  re_split_def re_split0_def

lemmas ref_defs = parse_references_def line_refs_def block_step_def flush_ref_def
  parse_single_reference_def ref_year_def ref_doi_def ref_title_def ref_authors_def
  ref_split_re_def year_re_def doi_re_def quoted_title_re_def sentence_split_re_def
  author_split_re_def

lemmas layout_defs = classify_section_def SECTION_PATTERNS_def strip_numbering_re_def
  strip_roman_re_def strip_letter_re_def is_numbered_heading_def numbered_re_def
  roman_numbered_re_def

text \<open>A pattern that starts with \<^verbatim>\<open>^\<close> matches at the start of the text only.\<close>

lemma find_from_bol: "0 < i \<Longrightarrow> find_from ic ds (Seq Bol r) nxt (i, pv, s) = []"
  by (induction s arbitrary: i pv) (simp_all add: match_at_def)

lemma re_finditer_bol:
  "re_finditer ic ds (Seq Bol r) (x # xs) =
     (case match_at ic ds (Seq Bol r) (0, None, x # xs) of None \<Rightarrow> [] | Some m \<Rightarrow> [m])"
  by (cases "match_at ic ds (Seq Bol r) (0, None, x # xs)")
     (auto simp: re_finditer_def find_from_bol)

lemmas rel_defs = check_pattern_relation_def entities_co_occur_def RELATION_INDICATORS_def
  TYPE_RELATIONS_def

lemmas ent_defs = extract_entities_def known_entities_def extend_with_def match_patterns_def
  match_step_def generic_step_def extract_research_problems_def problem_step_def
  extract_baselines_def baseline_step_def part_step_def DATASET_PATTERNS_def
  DATASET_GENERIC_def METRIC_PATTERNS_def METHOD_PATTERNS_def TOOL_PATTERNS_def
  THEORY_PATTERNS_def problem_patterns_def baseline_patterns_def baseline_split_re_def


section \<open>Properties of the string operations\<close>

lemma sublist_rstrip: "sublist (rstrip s) s"
proof -
  have "sublist (dropWhile is_space (rev s)) (rev s)" by simp
  then show ?thesis by (simp add: rstrip_def sublist_rev_left)
qed

lemma sublist_strip: "sublist (strip s) s"
proof -
  have "sublist (rstrip (lstrip s)) (lstrip s)" by (rule sublist_rstrip)
  moreover have "sublist (lstrip s) s" by (simp add: lstrip_def)
  ultimately show ?thesis unfolding strip_def by (rule sublist_order.order.trans)
qed

lemma length_strip_le: "length (strip s) \<le> length s"
  by (rule sublist_length_le) (rule sublist_strip)

section \<open>Loops that may raise\<close>

lemma fold_err_total:
  "(\<And>s x. x \<in> set xs \<Longrightarrow> \<exists>s'. f s x = Inr s') \<Longrightarrow> \<exists>s'. fold_err f s xs = Inr s'"
proof (induction xs arbitrary: s)
  case Nil
  show ?case by simp
next
  case (Cons x xs)
  have "x \<in> set (x # xs)" by simp
  then have "\<exists>s1. f s x = Inr s1" by (rule Cons.prems)
  then obtain s1 where s1: "f s x = Inr s1" ..
  have "\<exists>s2. fold_err f s1 xs = Inr s2"
  proof (rule Cons.IH)
    fix s0 y
    assume "y \<in> set xs"
    then have "y \<in> set (x # xs)" by simp
    then show "\<exists>s'. f s0 y = Inr s'" by (rule Cons.prems)
  qed
  then obtain s2 where "fold_err f s1 xs = Inr s2" ..
  with s1 have "fold_err f s (x # xs) = Inr s2" by simp
  then show ?case ..
qed



section \<open>Claim C1: the section list is not empty\<close>

lemma abstract_sets: "always_sets abstract_re 1"
  by (simp add: abstract_re_def)

lemma abstract_fallback_total: "abstract_fallback full_text sections \<noteq> Inl e"
proof (cases "re_search True True abstract_re full_text")
  case None
  then show ?thesis by (simp add: abstract_fallback_def)
next
  case (Some m)
  from re_search_group[OF Some abstract_sets] obtain g1 where "group full_text m 1 = Some g1" ..
  with Some show ?thesis by (simp add: abstract_fallback_def Let_def)
qed

text \<open>
  C1, as stated, fails for a document without pages: the guard at the head of
  \<^verbatim>\<open>analyze_layout\<close> returns the empty list.
\<close>

theorem analyze_layout_no_pages_counterexample: "analyze_layout no_pages = Inr ([], ''en'')"
  by (simp add: analyze_layout_def no_pages_def)

text \<open>
  C1, amended: for every document with at least one page \<^verbatim>\<open>analyze_layout\<close> raises no
  error and returns a section list with at least one element; for every document without
  pages it returns the empty list, with the language \<^verbatim>\<open>en\<close>.
\<close>

theorem analyze_layout_nonempty:
  "(pages doc \<noteq> [] \<longrightarrow>
      (\<exists>sections language. analyze_layout doc = Inr (sections, language) \<and> sections \<noteq> []))
   \<and> (pages doc = [] \<longrightarrow> analyze_layout doc = Inr ([], ''en''))"
  by (auto simp: analyze_layout_def Let_def abstract_fallback_total split: sum.splits)

theorem analyze_layout_nonempty_witness:
  "pages one_page \<noteq> []
   \<and> (\<exists>sections language. analyze_layout one_page = Inr (sections, language) \<and> sections \<noteq> [])
   \<and> pages no_pages = []
   \<and> analyze_layout no_pages = Inr ([], ''en'')"
proof -
  have h: "pages one_page \<noteq> []" by (simp add: one_page_def)
  have e: "pages no_pages = []" by (simp add: no_pages_def)
  from analyze_layout_nonempty[of one_page] analyze_layout_nonempty[of no_pages] h e
  show ?thesis by blast
qed

section \<open>Claim C2: detect_language\<close>

lemma find_from_class:
  "nxt \<le> i \<Longrightarrow> length (find_from ic ds (Cls p) nxt (i, pv, s)) = length (filter (cmatch ic p) s)"
proof (induction s arbitrary: nxt i pv)
  case Nil
  then show ?case by (simp add: match_at_def)
next
  case (Cons x xs)
  from Cons.prems have nlt: "\<not> i < nxt" by simp
  show ?case
  proof (cases "cmatch ic p x")
    case True
    then have m: "match_at ic ds (Cls p) (i, pv, x # xs) = Some (i, Suc i, [])"
      by (simp add: match_at_def)
    have "length (find_from ic ds (Cls p) (Suc i) (Suc i, Some x, xs))
        = length (filter (cmatch ic p) xs)"
      by (rule Cons.IH) simp
    with nlt m True show ?thesis by simp
  next
    case False
    then have m: "match_at ic ds (Cls p) (i, pv, x # xs) = None"
      by (simp add: match_at_def)
    have "length (find_from ic ds (Cls p) nxt (Suc i, Some x, xs))
        = length (filter (cmatch ic p) xs)"
      by (rule Cons.IH) (use Cons.prems in simp)
    with nlt m False show ?thesis by simp
  qed
qed

lemma count_cjk: "length (re_findall0 False False cjk_re t) = cjk_count t"
proof -
  have "cmatch False (\<lambda>c. 19968 \<le> c \<and> c \<le> 40959) = (\<lambda>c. 19968 \<le> c \<and> c \<le> 40959)"
    by (rule ext) (simp add: cmatch_def)
  then show ?thesis
    by (simp add: re_findall0_def re_finditer_def cjk_re_def cjk_count_def find_from_class)
qed

lemma strip_empty: "strip t = [] \<Longrightarrow> \<forall>c \<in> set t. is_space c"
proof -
  assume "strip t = []"
  then have "\<forall>c \<in> set (dropWhile is_space t). is_space c"
    by (simp add: strip_def rstrip_def lstrip_def dropWhile_eq_Nil_conv)
  then have "dropWhile is_space t = []"
    using hd_dropWhile[of is_space t] hd_in_set[of "dropWhile is_space t"] by blast
  then show ?thesis by (simp add: dropWhile_eq_Nil_conv)
qed

lemma cjk_count_blank: "strip t = [] \<Longrightarrow> cjk_count t = 0"
proof -
  assume "strip t = []"
  then have "\<forall>c \<in> set t. is_space c" by (rule strip_empty)
  moreover have "\<And>c. is_space c \<Longrightarrow> \<not> (19968 \<le> c \<and> c \<le> 40959)"
    by (auto simp: is_space_def)
  ultimately have "filter (\<lambda>c. 19968 \<le> c \<and> c \<le> 40959) t = []"
    by (auto simp: filter_empty_conv)
  then show ?thesis by (simp add: cjk_count_def)
qed

lemma ratio_exceeds:
  "0 < n \<Longrightarrow> ((3 :: rat) / 10 < of_nat c / of_nat n) = (3 * n < 10 * c)"
proof -
  assume n: "0 < n"
  then have "((3 :: rat) / 10 < of_nat c / of_nat n) = (3 * of_nat n < 10 * (of_nat c :: rat))"
    by (simp add: field_simps)
  also have "\<dots> = ((of_nat (3 * n) :: rat) < of_nat (10 * c))"
    by simp
  also have "\<dots> = (3 * n < 10 * c)"
    by (simp only: of_nat_less_iff)
  finally show ?thesis .
qed

text \<open>
  C2, as stated, fails: the divisor is not the number of non-whitespace characters. In
  \<open>spaced_text\<close> one of the two non-whitespace characters is a CJK code point (a ratio
  of one half), and the result is \<^verbatim>\<open>en\<close>, because the blanks inside the text count.
\<close>

theorem detect_language_spaced_counterexample:
  "(3 :: rat) / 10 < of_nat (cjk_count spaced_text) / of_nat (non_whitespace_length spaced_text)
   \<and> detect_language spaced_text = ''en''"
  by (simp add: detect_language_def count_cjk cjk_count_def non_whitespace_length_def
      spaced_text_def strip_def lstrip_def rstrip_def is_space_def)

text \<open>
  C2, amended: \<^verbatim>\<open>detect_language\<close> returns \<^verbatim>\<open>zh\<close> exactly when the number of CJK code
  points divided by the length of the text without its leading and trailing whitespace
  (whitespace inside the text counts) exceeds 0.3, and \<^verbatim>\<open>en\<close> otherwise; a text that is
  empty after stripping gives \<^verbatim>\<open>en\<close>.
\<close>

theorem detect_language_ratio:
  "detect_language t =
     (if 3 * length (strip t) < 10 * cjk_count t then ''zh'' else ''en'')"
proof (cases "strip t = []")
  case True
  then have "cjk_count t = 0" by (rule cjk_count_blank)
  with True show ?thesis by (simp add: detect_language_def)
next
  case False
  then have "0 < length (strip t)" by simp
  from ratio_exceeds[OF this] False show ?thesis
    by (simp add: detect_language_def count_cjk Let_def)
qed

section \<open>Claim C3: headings of unknown type\<close>

lemma classify_foo: "classify_section [70, 111, 111] = ''other''"
  by (simp add: str_defs re_defs layout_defs)

lemma foo_not_numbered: "is_numbered_heading [70, 111, 111] = False"
  by (simp add: str_defs re_defs layout_defs)

lemma bold_fragment_step:
  "process_block 12 14 ([], Some open_methods) bold_fragment =
     ([], Some (open_methods\<lparr>content := cps ''We train. Foo '', page_end := 1\<rparr>))"
  by (simp add: process_block_def heading_checks_def font_signal_def bold_fragment_def
      open_methods_def classify_foo foo_not_numbered str_defs Let_def)

lemma large_fragment_step:
  "process_block 12 14 ([], None) large_fragment =
     ([], Some \<lparr>section_type = ''other'', heading = cps ''Foo'', content = [],
                page_start = 1, page_end = 1\<rparr>)"
  by (simp add: process_block_def heading_checks_def font_signal_def large_fragment_def
      classify_foo foo_not_numbered str_defs Let_def)

lemma long_text: "replicate 200 (122 :: nat) = 122 # 122 # replicate 198 122"
  by (simp add: replicate_add[of 2 198, simplified] numeral_2_eq_2)

lemma strip_long: "strip (replicate 200 122) = replicate 200 122"
proof -
  have "\<not> is_space 122" by (simp add: is_space_def)
  then have "dropWhile is_space (replicate 200 122) = replicate 200 122"
    by (simp add: dropWhile_eq_self_iff)
  then show ?thesis by (simp add: strip_def lstrip_def rstrip_def)
qed

lemma lower_long: "lower (replicate 200 122) = replicate 200 122"
  by (simp add: lower_def to_lower_def is_upper_char_def)

lemma sub_long:
  "re_sub_empty False False strip_numbering_re (replicate 200 122) = replicate 200 122"
  "re_sub_empty True False strip_roman_re (replicate 200 122) = replicate 200 122"
  "re_sub_empty True False strip_letter_re (replicate 200 122) = replicate 200 122"
proof -
  have "re_finditer False False strip_numbering_re (122 # 122 # replicate 198 122) = []"
    "re_finditer True False strip_roman_re (122 # 122 # replicate 198 122) = []"
    "re_finditer True False strip_letter_re (122 # 122 # replicate 198 122) = []"
    by (simp_all add: strip_numbering_re_def strip_roman_re_def strip_letter_re_def
        re_finditer_bol re_core str_defs)
  then show
    "re_sub_empty False False strip_numbering_re (replicate 200 122) = replicate 200 122"
    "re_sub_empty True False strip_roman_re (replicate 200 122) = replicate 200 122"
    "re_sub_empty True False strip_letter_re (replicate 200 122) = replicate 200 122"
    by (simp_all add: re_sub_empty_def long_text[symmetric])
qed

lemma no_pattern_long:
  "find (\<lambda>(ty, patterns).
           list_ex (\<lambda>pattern. re_match True False pattern (replicate 200 122) \<noteq> None) patterns)
     SECTION_PATTERNS = None"
  unfolding long_text
  by (simp add: SECTION_PATTERNS_def re_core str_defs)

lemma classify_long: "classify_section (replicate 200 122) = ''other''"
  unfolding classify_section_def Let_def strip_long lower_long sub_long no_pattern_long
  by simp

lemma long_not_numbered: "is_numbered_heading (replicate 200 122) = False"
  unfolding is_numbered_heading_def strip_long
  unfolding long_text
  by (simp add: numbered_re_def roman_numbered_re_def re_core str_defs)

lemma long_fragment_step:
  "process_block 12 14 ([], Some open_methods) long_fragment =
     ([], Some (open_methods\<lparr>content := cps ''We train. '' @ replicate 200 122 @ cps '' '',
                              page_end := 1\<rparr>))"
  by (simp add: process_block_def heading_checks_def font_signal_def long_fragment_def
      open_methods_def classify_long long_not_numbered strip_long isupper_def list_ex_iff
      is_upper_char_def is_lower_char_def cps_def Let_def)

text \<open>
  C3, as stated, fails in three ways. A bold fragment exactly at the heading size fires
  signal (a) and is classified \<^verbatim>\<open>other\<close>, yet goes into the open section as plain
  text, without \<^verbatim>\<open>###\<close>. A larger fragment met while no section is open starts a new
  section of type \<^verbatim>\<open>other\<close>. A larger fragment of 200 characters is no heading at all
  and is appended as plain text.
\<close>

theorem subsection_marker_counterexample:
  "signal_a 12 14 bold_fragment
   \<and> classify_section (strip (block_text bold_fragment)) = ''other''
   \<and> process_block 12 14 ([], Some open_methods) bold_fragment =
       ([], Some (open_methods\<lparr>content := cps ''We train. Foo '', page_end := 1\<rparr>))
   \<and> signal_a 12 14 large_fragment
   \<and> classify_section (strip (block_text large_fragment)) = ''other''
   \<and> process_block 12 14 ([], None) large_fragment =
       ([], Some \<lparr>section_type = ''other'', heading = cps ''Foo'', content = [],
                  page_start = 1, page_end = 1\<rparr>)
   \<and> signal_a 12 14 long_fragment
   \<and> classify_section (strip (block_text long_fragment)) = ''other''
   \<and> process_block 12 14 ([], Some open_methods) long_fragment =
       ([], Some (open_methods\<lparr>content := cps ''We train. '' @ replicate 200 122 @ cps '' '',
                                page_end := 1\<rparr>))"
proof -
  have a: "signal_a 12 14 bold_fragment" "signal_a 12 14 large_fragment"
    "signal_a 12 14 long_fragment"
    by (simp_all add: signal_a_def bold_fragment_def large_fragment_def long_fragment_def)
  have "strip (block_text bold_fragment) = [70, 111, 111]"
    "strip (block_text large_fragment) = [70, 111, 111]"
    by (simp_all add: bold_fragment_def large_fragment_def str_defs)
  then have c: "classify_section (strip (block_text bold_fragment)) = ''other''"
    "classify_section (strip (block_text large_fragment)) = ''other''"
    by (simp_all add: classify_foo)
  have "strip (block_text long_fragment) = replicate 200 122"
    by (simp add: long_fragment_def strip_long)
  then have l: "classify_section (strip (block_text long_fragment)) = ''other''"
    by (simp add: classify_long)
  from a c l bold_fragment_step large_fragment_step long_fragment_step
  show ?thesis by (simp only: simp_thms)
qed

text \<open>
  C3, amended: for every merged fragment with a non-blank text of fewer than 200
  characters whose font size is strictly greater than \<^verbatim>\<open>heading_size\<close>, that is bold or
  more than half a point above \<^verbatim>\<open>body_size\<close>, and whose classification is \<^verbatim>\<open>other\<close>:
  when a section is currently open, the step of \<^verbatim>\<open>analyze_layout\<close> appends a newline,
  \<^verbatim>\<open>### <heading>\<close> and a newline to the content of that section, sets its last page to
  the page of the fragment, and starts no new section.
\<close>

theorem subsection_marker:
  assumes "strip (block_text block) \<noteq> []"
    and "length (strip (block_text block)) < 200"
    and "heading_size < font_size block"
    and "is_bold block \<or> body_size + 1 / 2 < font_size block"
    and "classify_section (strip (block_text block)) = ''other''"
  shows "process_block body_size heading_size (sections, Some cur) block =
     (sections,
      Some (cur\<lparr>content := content cur @ [10] @ cps ''### '' @ strip (block_text block) @ [10],
                page_end := page_num block\<rparr>))"
proof -
  from assms(2-4) have "font_signal body_size heading_size block (strip (block_text block))"
    by (auto simp: font_signal_def)
  with assms(5) have
    "heading_checks body_size heading_size block (strip (block_text block)) = (True, ''other'')"
    by (simp add: heading_checks_def Let_def)
  with assms(1,3) show ?thesis
    by (simp add: process_block_def Let_def)
qed

theorem subsection_marker_witness:
  "strip (block_text large_fragment) \<noteq> []
   \<and> length (strip (block_text large_fragment)) < 200
   \<and> (14 :: rat) < font_size large_fragment
   \<and> (is_bold large_fragment \<or> (12 :: rat) + 1 / 2 < font_size large_fragment)
   \<and> classify_section (strip (block_text large_fragment)) = ''other''
   \<and> process_block 12 14 ([], Some open_methods) large_fragment =
       ([], Some (open_methods\<lparr>content := content open_methods @ [10] @ cps ''### ''
                                   @ strip (block_text large_fragment) @ [10],
                                page_end := page_num large_fragment\<rparr>))"
proof -
  have t: "strip (block_text large_fragment) = [70, 111, 111]"
    by (simp add: large_fragment_def str_defs)
  have h1: "strip (block_text large_fragment) \<noteq> []"
    and h2: "length (strip (block_text large_fragment)) < 200"
    by (simp_all add: t)
  have h3: "(14 :: rat) < font_size large_fragment"
    and h4: "is_bold large_fragment \<or> (12 :: rat) + 1 / 2 < font_size large_fragment"
    by (simp_all add: large_fragment_def)
  have h5: "classify_section (strip (block_text large_fragment)) = ''other''"
    by (simp add: t classify_foo)
  from subsection_marker[OF h1 h2 h3 h4 h5, of "[]" open_methods] h1 h2 h3 h4 h5
  show ?thesis by (simp only: simp_thms)
qed

section \<open>Claim C4: references without markers\<close>

text \<open>
  C4 does not hold of the code. \<open>two_line_refs\<close> has no marker and two lines of more than
  20 characters, so the claim asks for two references. The loop over the pieces of
  \<^verbatim>\<open>re.split\<close> turns the whole text into one reference first; \<^verbatim>\<open>references\<close> is then
  not empty and the line-by-line fallback is skipped.
\<close>

theorem unmarked_lines_one_reference:
  "re_finditer False False ref_split_re two_line_refs = []
   \<and> map strip (filter (\<lambda>line. 20 < length (strip line)) (split_on 10 (strip two_line_refs)))
       = [cps ''Smith J. Deep Learning for Vision. 2019'',
          cps ''Doe A. Another Long Paper Title. 2020'']
   \<and> map_sum id (map ref_raw_text) (parse_references two_line_refs) = Inr [two_line_refs]"
  by (simp add: two_line_refs_def str_defs re_defs ref_defs)

section \<open>Claim C5: the reference of Smith and Doe\<close>

lemma smith_doe_parsed:
  "parse_references smith_doe =
     Inr [\<lparr>ref_raw_text = smith_doe, title = None,
           authors = [cps ''[1] Smith'', cps ''J.'', cps ''Doe'', cps ''A. Deep Learning. NeurIPS''],
           year = Some 2019, venue = None, doi = None, ref_order = 0\<rparr>]"
  by (simp add: smith_doe_def str_defs re_defs ref_defs)

text \<open>
  C5, as stated, fails: on the input \<^verbatim>\<open>[1] Smith, J. and Doe, A. Deep Learning. NeurIPS, 2019.\<close>
  the author list is not \<^verbatim>\<open>["Smith, J.", "Doe, A."]\<close>. The text before the year is split
  at every comma and at \<^verbatim>\<open>and\<close>, which gives four entries.
\<close>

theorem smith_doe_authors_counterexample:
  "map_sum id (map authors) (parse_references smith_doe)
     = Inr [[cps ''[1] Smith'', cps ''J.'', cps ''Doe'', cps ''A. Deep Learning. NeurIPS'']]
   \<and> map_sum id (map authors) (parse_references smith_doe)
     \<noteq> Inr [[cps ''Smith, J.'', cps ''Doe, A.'']]"
  by (simp add: smith_doe_parsed)

text \<open>
  C5, amended: \<^verbatim>\<open>parse_references\<close> does not raise on that input and returns exactly one
  reference, with year 2019, no title (the second sentence-like piece, \<^verbatim>\<open>and Doe, A\<close>, has
  only ten characters), and the authors \<^verbatim>\<open>["[1] Smith", "J.", "Doe", "A. Deep Learning. NeurIPS"]\<close>:
  the text before the year, stripped of trailing \<^verbatim>\<open>,.(\<close>, split on \<^verbatim>\<open>and\<close>, \<^verbatim>\<open>,\<close> and
  \<^verbatim>\<open>&\<close>.
\<close>

theorem smith_doe_reference:
  "parse_references smith_doe =
     Inr [\<lparr>ref_raw_text = smith_doe, title = None,
           authors = [cps ''[1] Smith'', cps ''J.'', cps ''Doe'', cps ''A. Deep Learning. NeurIPS''],
           year = Some 2019, venue = None, doi = None, ref_order = 0\<rparr>]"
  by (rule smith_doe_parsed)

section \<open>Claims C6 and C7: relationships\<close>

lemma check_bert_glue:
  "check_pattern_relation [66, 69, 82, 84] [71, 76, 85, 69] bert_on_glue = Some ''evaluates_on''"
  by (simp add: bert_on_glue_def rel_defs re_core str_defs)

lemma check_glue_bert:
  "check_pattern_relation [71, 76, 85, 69] [66, 69, 82, 84] bert_on_glue = None"
  by (simp add: bert_on_glue_def rel_defs re_core str_defs)

lemma check_bert_bert:
  "check_pattern_relation [66, 69, 82, 84] [66, 69, 82, 84] bert_on_glue = None"
  by (simp add: bert_on_glue_def rel_defs re_core str_defs)

lemma bert_glue_description:
  "make_rel (cps ''BERT'') (cps ''GLUE'') ''evaluates_on'' (7 / 10) =
     \<lparr>source = cps ''BERT'', target = cps ''GLUE'', relation_type = ''evaluates_on'',
      description = cps ''BERT evaluates_on GLUE'', rel_confidence = 7 / 10\<rparr>"
  by (simp add: make_rel_def cps_def)

lemma bert_glue_relationships:
  "extract_relationships [bert, glue] bert_on_glue =
     [make_rel (cps ''BERT'') (cps ''GLUE'') ''evaluates_on'' (7 / 10)]"
  by (simp add: extract_relationships_def pair_step_def bert_def glue_def cps_def Let_def
      check_bert_glue)

lemma reversed_pattern_step:
  assumes "i < j"
    and "(lower (entity_text e1), lower (entity_text e2)) \<notin> seen"
    and "check_pattern_relation (entity_text e1) (entity_text e2) c = None"
    and "check_pattern_relation (entity_text e2) (entity_text e1) c = Some r"
  shows "pair_step c i e1 j e2 (rels, seen) =
     (rels @ [make_rel (entity_text e2) (entity_text e1) r (7 / 10)],
      insert (lower (entity_text e1), lower (entity_text e2)) seen)"
  using assms by (simp add: pair_step_def Let_def)

text \<open>
  C7: the two entities BERT (method) and GLUE (dataset) with the context
  \<^verbatim>\<open>We evaluate BERT on GLUE\<close> give exactly one relationship, from BERT to GLUE, of type
  \<^verbatim>\<open>evaluates_on\<close>, with confidence 0.7. And whenever, for a pair not yet seen, no lexical
  pattern matches in the order of the list but one matches in the reversed order, the
  relationship is recorded with source and target swapped, with confidence 0.7.
\<close>

theorem bert_evaluates_on_glue:
  "extract_relationships [bert, glue] bert_on_glue =
     [\<lparr>source = cps ''BERT'', target = cps ''GLUE'', relation_type = ''evaluates_on'',
       description = cps ''BERT evaluates_on GLUE'', rel_confidence = 7 / 10\<rparr>]
   \<and> (i < j \<longrightarrow> (lower (entity_text e1), lower (entity_text e2)) \<notin> seen \<longrightarrow>
        check_pattern_relation (entity_text e1) (entity_text e2) c = None \<longrightarrow>
        check_pattern_relation (entity_text e2) (entity_text e1) c = Some r \<longrightarrow>
        pair_step c i e1 j e2 (rels, seen) =
          (rels @ [\<lparr>source = entity_text e2, target = entity_text e1, relation_type = r,
                     description = entity_text e2 @ [32] @ cps r @ [32] @ entity_text e1,
                     rel_confidence = 7 / 10\<rparr>],
           insert (lower (entity_text e1), lower (entity_text e2)) seen))"
proof
  show "extract_relationships [bert, glue] bert_on_glue =
     [\<lparr>source = cps ''BERT'', target = cps ''GLUE'', relation_type = ''evaluates_on'',
       description = cps ''BERT evaluates_on GLUE'', rel_confidence = 7 / 10\<rparr>]"
    by (simp only: bert_glue_relationships bert_glue_description)
next
  show "i < j \<longrightarrow> (lower (entity_text e1), lower (entity_text e2)) \<notin> seen \<longrightarrow>
        check_pattern_relation (entity_text e1) (entity_text e2) c = None \<longrightarrow>
        check_pattern_relation (entity_text e2) (entity_text e1) c = Some r \<longrightarrow>
        pair_step c i e1 j e2 (rels, seen) =
          (rels @ [\<lparr>source = entity_text e2, target = entity_text e1, relation_type = r,
                     description = entity_text e2 @ [32] @ cps r @ [32] @ entity_text e1,
                     rel_confidence = 7 / 10\<rparr>],
           insert (lower (entity_text e1), lower (entity_text e2)) seen)"
    by (simp add: reversed_pattern_step make_rel_def)
qed

theorem bert_evaluates_on_glue_witness:
  "(0 :: nat) < 1
   \<and> (lower (entity_text glue), lower (entity_text bert)) \<notin> {}
   \<and> check_pattern_relation (entity_text glue) (entity_text bert) bert_on_glue = None
   \<and> check_pattern_relation (entity_text bert) (entity_text glue) bert_on_glue
       = Some ''evaluates_on''
   \<and> pair_step bert_on_glue 0 glue 1 bert ([], {}) =
       ([\<lparr>source = entity_text bert, target = entity_text glue,
          relation_type = ''evaluates_on'',
          description = entity_text bert @ [32] @ cps ''evaluates_on'' @ [32] @ entity_text glue,
          rel_confidence = 7 / 10\<rparr>],
        {(lower (entity_text glue), lower (entity_text bert))})"
proof -
  have h1: "(0 :: nat) < 1" by simp
  have h2: "(lower (entity_text glue), lower (entity_text bert)) \<notin> {}" by simp
  have h3: "check_pattern_relation (entity_text glue) (entity_text bert) bert_on_glue = None"
    by (simp add: glue_def bert_def cps_def check_glue_bert)
  have h4: "check_pattern_relation (entity_text bert) (entity_text glue) bert_on_glue
      = Some ''evaluates_on''"
    by (simp add: glue_def bert_def cps_def check_bert_glue)
  from bert_evaluates_on_glue[of 0 1 glue bert "{}" bert_on_glue "''evaluates_on''" "[]"]
    h1 h2 h3 h4
  show ?thesis by simp
qed

text \<open>
  C6 does not hold of the code: the set \<^verbatim>\<open>seen_pairs\<close> holds ordered pairs, in the order
  of the list. When the text BERT occurs at the positions 0 and 2 and GLUE at position 1,
  the pair of positions (1, 2) has the key (glue, bert), which is not in the set, and the
  reversed pattern check records the relationship from BERT to GLUE a second time.
\<close>

theorem duplicate_relationship:
  "extract_relationships [bert, glue, bert] bert_on_glue =
     [\<lparr>source = cps ''BERT'', target = cps ''GLUE'', relation_type = ''evaluates_on'',
       description = cps ''BERT evaluates_on GLUE'', rel_confidence = 7 / 10\<rparr>,
      \<lparr>source = cps ''BERT'', target = cps ''GLUE'', relation_type = ''evaluates_on'',
       description = cps ''BERT evaluates_on GLUE'', rel_confidence = 7 / 10\<rparr>]"
proof -
  have co: "entities_co_occur [66, 69, 82, 84] [66, 69, 82, 84] bert_on_glue 250"
    by (simp add: bert_on_glue_def rel_defs re_core re_finditer_def str_defs)
  have "extract_relationships [bert, glue, bert] bert_on_glue =
     [make_rel (cps ''BERT'') (cps ''GLUE'') ''evaluates_on'' (7 / 10),
      make_rel (cps ''BERT'') (cps ''GLUE'') ''evaluates_on'' (7 / 10)]"
    by (simp add: extract_relationships_def pair_step_def bert_def glue_def cps_def Let_def
        check_bert_glue check_glue_bert check_bert_bert co TYPE_RELATIONS_def to_lower_def
        lower_def is_upper_char_def)
  then show ?thesis by (simp only: bert_glue_description)
qed

section \<open>Claim C8: entity keys\<close>

lemma known_none: "known_entities (take 12000 compared_twice) = ([], {})"
  by (simp add: compared_twice_def ent_defs re_defs str_defs)

lemma compared_twice_entities:
  "extract_entities (cps ''experiments'') compared_twice =
     Inr [\<lparr>entity_text = cps ''Abc '', entity_type = ''baseline'', confidence = 6 / 10\<rparr>,
          \<lparr>entity_text = cps ''Abc'', entity_type = ''baseline'', confidence = 6 / 10\<rparr>]"
proof -
  have t: "take 12000 compared_twice = compared_twice"
    by (simp add: compared_twice_def cps_def)
  have long: "\<not> (compared_twice = [] \<or> length (strip compared_twice) < 30)"
    by (simp add: compared_twice_def str_defs)
  have g: "re_finditer True False DATASET_GENERIC compared_twice = []"
    by (simp add: compared_twice_def DATASET_GENERIC_def re_defs str_defs)
  have b: "extract_baselines compared_twice {} =
      Inr ([\<lparr>entity_text = cps ''Abc '', entity_type = ''baseline'', confidence = 6 / 10\<rparr>,
            \<lparr>entity_text = cps ''Abc'', entity_type = ''baseline'', confidence = 6 / 10\<rparr>],
           {cps ''abc '', cps ''abc''})"
    by (simp add: compared_twice_def extract_baselines_def baseline_step_def part_step_def
        baseline_patterns_def baseline_split_re_def re_defs str_defs insert_commute)
  have s: "cps ''experiments'' \<notin> set (map cps [''abstract'', ''introduction'', ''other''])"
    "cps ''experiments'' \<in> set (map cps [''experiments'', ''results'', ''discussion'', ''other''])"
    by (simp_all add: cps_def)
  show ?thesis
    unfolding extract_entities_def Let_def t
    using long s by (simp add: known_none[unfolded t] g b extend_with_def)
qed

text \<open>
  C8 does not hold of the code: two entities of one run can share the lower-cased,
  stripped text. In an experiments section the sentence \<open>compared_twice\<close> gives two
  baseline entities with the texts \<^verbatim>\<open>"Abc "\<close> and \<^verbatim>\<open>"Abc"\<close>. \<^verbatim>\<open>_extract_baselines\<close>
  takes \<^verbatim>\<open>part.strip().rstrip('.')\<close>, which keeps the blank that stood before the period,
  and looks up \<^verbatim>\<open>part.lower()\<close> in \<^verbatim>\<open>seen\<close>, where \<^verbatim>\<open>_match_patterns\<close> looks up
  \<^verbatim>\<open>text.lower().strip()\<close>; so \<^verbatim>\<open>seen\<close> holds the two keys \<^verbatim>\<open>"abc "\<close> and \<^verbatim>\<open>"abc"\<close>.
\<close>

theorem duplicate_entity_key:
  "extract_entities (cps ''experiments'') compared_twice =
     Inr [\<lparr>entity_text = cps ''Abc '', entity_type = ''baseline'', confidence = 6 / 10\<rparr>,
          \<lparr>entity_text = cps ''Abc'', entity_type = ''baseline'', confidence = 6 / 10\<rparr>]
   \<and> cps ''Abc '' \<noteq> cps ''Abc''
   \<and> strip (lower (cps ''Abc '')) = strip (lower (cps ''Abc''))
   \<and> lower (strip (cps ''Abc '')) = lower (strip (cps ''Abc''))"
proof -
  have "cps ''Abc '' \<noteq> cps ''Abc''"
    and "strip (lower (cps ''Abc '')) = strip (lower (cps ''Abc''))"
    and "lower (strip (cps ''Abc '')) = lower (strip (cps ''Abc''))"
    by (simp_all add: str_defs)
  with compared_twice_entities show ?thesis by (simp only: simp_thms)
qed

section \<open>Claim C9: extract_entities does not raise\<close>

lemma generic_sets: "always_sets DATASET_GENERIC 1"
  by (simp add: DATASET_GENERIC_def)

lemma problem_sets: "p \<in> set problem_patterns \<Longrightarrow> always_sets p 1"
  by (auto simp: problem_patterns_def)

lemma baseline_sets: "p \<in> set baseline_patterns \<Longrightarrow> always_sets p 1"
  by (auto simp: baseline_patterns_def)

lemma generic_total:
  "\<exists>s'. fold_err (generic_step t) s (re_finditer True False DATASET_GENERIC t) = Inr s'"
proof (rule fold_err_total)
  fix s m
  assume "m \<in> set (re_finditer True False DATASET_GENERIC t)"
  from re_finditer_group[OF this generic_sets] obtain g1 where "group t m 1 = Some g1" ..
  then show "\<exists>s'. generic_step t s m = Inr s'"
    by (simp add: generic_step_def Let_def)
qed

lemma problems_total: "\<exists>res. extract_research_problems t seen = Inr res"
  unfolding extract_research_problems_def
proof (rule fold_err_total)
  fix s p
  assume p: "p \<in> set problem_patterns"
  show "\<exists>s'. fold_err (problem_step t) s (re_finditer True False p t) = Inr s'"
  proof (rule fold_err_total)
    fix s1 m
    assume "m \<in> set (re_finditer True False p t)"
    from re_finditer_group[OF this problem_sets[OF p]] obtain g1 where "group t m 1 = Some g1" ..
    then show "\<exists>s'. problem_step t s1 m = Inr s'"
      by (simp add: problem_step_def Let_def)
  qed
qed

lemma baselines_total: "\<exists>res. extract_baselines t seen = Inr res"
  unfolding extract_baselines_def
proof (rule fold_err_total)
  fix s p
  assume p: "p \<in> set baseline_patterns"
  show "\<exists>s'. fold_err (baseline_step t) s (re_finditer True False p t) = Inr s'"
  proof (rule fold_err_total)
    fix s1 m
    assume "m \<in> set (re_finditer True False p t)"
    from re_finditer_group[OF this baseline_sets[OF p]] obtain g1 where "group t m 1 = Some g1" ..
    then show "\<exists>s'. baseline_step t s1 m = Inr s'"
      by (simp add: baseline_step_def)
  qed
qed

lemma extract_entities_total: "\<exists>es. extract_entities section_type0 content0 = Inr es"
proof -
  let ?t = "take 12000 content0"
  define a where "a = (section_type0 \<in> set (map cps [''abstract'', ''introduction'', ''other'']))"
  define b where "b = (section_type0 \<in> set (map cps [''experiments'', ''results'',
                                                              ''discussion'', ''other'']))"
  have eq: "extract_entities section_type0 content0 =
     (if content0 = [] \<or> length (strip content0) < 30 then Inr []
      else
        (case fold_err (generic_step ?t) (known_entities ?t)
                (re_finditer True False DATASET_GENERIC ?t) of
              Inl e \<Rightarrow> Inl e
            | Inr s6 \<Rightarrow>
                (case (if a
                       then (case extract_research_problems ?t (snd s6) of
                               Inl e \<Rightarrow> Inl e
                             | Inr res \<Rightarrow> Inr (extend_with (fst s6) res))
                       else Inr s6) of
                   Inl e \<Rightarrow> Inl e
                 | Inr s7 \<Rightarrow>
                     (case (if b
                            then (case extract_baselines ?t (snd s7) of
                                    Inl e \<Rightarrow> Inl e
                                  | Inr res \<Rightarrow> Inr (extend_with (fst s7) res))
                            else Inr s7) of
                        Inl e \<Rightarrow> Inl e
                      | Inr s8 \<Rightarrow> Inr (fst s8)))))"
    unfolding extract_entities_def Let_def a_def b_def by (rule refl)
  obtain s6 where s6: "fold_err (generic_step ?t) (known_entities ?t)
      (re_finditer True False DATASET_GENERIC ?t) = Inr s6"
    using generic_total by blast
  obtain r7 where r7: "extract_research_problems ?t (snd s6) = Inr r7"
    using problems_total by blast
  define s7 where "s7 = (if a then extend_with (fst s6) r7 else s6)"
  obtain r8 where r8: "extract_baselines ?t (snd s7) = Inr r8"
    using baselines_total by blast
  have s7: "(if a then (case extract_research_problems ?t (snd s6) of
                               Inl e \<Rightarrow> Inl e
                             | Inr res \<Rightarrow> Inr (extend_with (fst s6) res))
                       else Inr s6) = Inr s7"
    by (simp add: s7_def r7)
  have "extract_entities section_type0 content0 =
     (if content0 = [] \<or> length (strip content0) < 30 then Inr []
      else (case (if b
                  then (case extract_baselines ?t (snd s7) of
                          Inl e \<Rightarrow> Inl e
                        | Inr res \<Rightarrow> Inr (extend_with (fst s7) res))
                  else Inr s7) of
              Inl e \<Rightarrow> Inl e
            | Inr s8 \<Rightarrow> Inr (fst s8)))"
    by (simp only: eq s6 sum.case s7)
  then show ?thesis by (simp add: r8)
qed

text \<open>
  C9: for every section type and every content, \<^verbatim>\<open>extract_entities\<close> returns a list and
  raises no error; for an empty content and for a content of fewer than 30 characters the
  list is empty.
\<close>

theorem extract_entities_fails_closed:
  "(\<exists>es. extract_entities section_type0 content0 = Inr es)
   \<and> (content0 = [] \<or> length content0 < 30 \<longrightarrow> extract_entities section_type0 content0 = Inr [])"
proof
  show "\<exists>es. extract_entities section_type0 content0 = Inr es"
    by (rule extract_entities_total)
next
  show "content0 = [] \<or> length content0 < 30 \<longrightarrow> extract_entities section_type0 content0 = Inr []"
  proof
    assume short: "content0 = [] \<or> length content0 < 30"
    have "length (strip content0) \<le> length content0" by (rule length_strip_le)
    with short have "content0 = [] \<or> length (strip content0) < 30" by auto
    then show "extract_entities section_type0 content0 = Inr []"
      unfolding extract_entities_def by (simp only: if_True)
  qed
qed

theorem extract_entities_fails_closed_witness:
  "(cps ''BERT on GLUE'' = [] \<or> length (cps ''BERT on GLUE'') < 30)
   \<and> extract_entities (cps ''experiments'') (cps ''BERT on GLUE'') = Inr []"
proof -
  have h: "cps ''BERT on GLUE'' = [] \<or> length (cps ''BERT on GLUE'') < 30"
    by (simp add: cps_def)
  from extract_entities_fails_closed[of "cps ''experiments''" "cps ''BERT on GLUE''"] h
  show ?thesis by blast
qed

section \<open>Claim C10: page numbers of tables and of sections\<close>

















































end
